theory Spec2Isabelle
  imports Complex_Main
begin

section \<open>Python values\<close>

text \<open>
  The keyword options of \<^verbatim>\<open>imgplot\<close> and \<^verbatim>\<open>imghist\<close> (file
  \<^verbatim>\<open>seaborn_image/_general.py\<close>) are dynamically typed. The values an option can
  hold are modelled by \<open>pyval\<close>: \<^verbatim>\<open>None\<close>, booleans, integers, floats (finite ones,
  as reals; NaN is outside the model), strings (a \<open>char\<close> is one code point below 256),
  tuples and lists of scalars, a \<^verbatim>\<open>matplotlib.colors.Colormap\<close> instance, a
  \<^verbatim>\<open>matplotlib.axes.Axes\<close> instance, a \<^verbatim>\<open>matplotlib.figure.Figure\<close> instance,
  and a plain object with no special methods.
\<close>

datatype pyerror = TypeError | ValueError | AssertionError | IndexError | AttributeError

datatype pyatom = ANone | ABool bool | AInt int | AFloat real | AStr string

datatype pyval =
    PNone
  | PBool bool
  | PInt int
  | PFloat real
  | PStr string
  | PTuple "pyatom list"
  | PList "pyatom list"
  | PColormap
  | PAxes
  | PFigure
  | PObject

text \<open>
  The image data is either a \<^verbatim>\<open>numpy.ndarray\<close>, of which the code reads only
  \<^verbatim>\<open>ndim\<close>, or another array-like value (a nested list), which has neither
  \<^verbatim>\<open>flatten\<close> nor \<^verbatim>\<open>ravel\<close>.
\<close>

datatype pydata = Ndarray nat | NestedList

text \<open>\<^verbatim>\<open>isinstance(x, bool)\<close>, \<^verbatim>\<open>isinstance(x, str)\<close>,
  \<^verbatim>\<open>isinstance(x, int)\<close> (\<^verbatim>\<open>bool\<close> is a subclass of \<^verbatim>\<open>int\<close>),
  \<^verbatim>\<open>isinstance(x, Colormap)\<close> and \<^verbatim>\<open>isinstance(x, Axes)\<close>.\<close>

fun is_bool :: "pyval \<Rightarrow> bool" where
  "is_bool (PBool b) = True"
| "is_bool v = False"

fun is_str :: "pyval \<Rightarrow> bool" where
  "is_str (PStr s) = True"
| "is_str v = False"

fun is_int :: "pyval \<Rightarrow> bool" where
  "is_int (PInt i) = True"
| "is_int (PBool b) = True"
| "is_int v = False"

fun is_colormap :: "pyval \<Rightarrow> bool" where
  "is_colormap PColormap = True"
| "is_colormap v = False"

fun is_axes :: "pyval \<Rightarrow> bool" where
  "is_axes PAxes = True"
| "is_axes v = False"

text \<open>Truth value of an object, as \<^verbatim>\<open>if x:\<close> and \<^verbatim>\<open>not x\<close> take it.\<close>

fun truthy :: "pyval \<Rightarrow> bool" where
  "truthy PNone = False"
| "truthy (PBool b) = b"
| "truthy (PInt i) = (i \<noteq> 0)"
| "truthy (PFloat r) = (r \<noteq> 0)"
| "truthy (PStr s) = (s \<noteq> [])"
| "truthy (PTuple xs) = (xs \<noteq> [])"
| "truthy (PList xs) = (xs \<noteq> [])"
| "truthy PColormap = True"
| "truthy PAxes = True"
| "truthy PFigure = True"
| "truthy PObject = True"

text \<open>The items of a value seen as a sequence, which \<^verbatim>\<open>len\<close> counts and indexing
  reads; a value without \<^verbatim>\<open>__len__\<close> gives \<^verbatim>\<open>TypeError\<close>. The items of a string
  are its one-character strings.\<close>

fun py_items :: "pyval \<Rightarrow> pyerror + pyatom list" where
  "py_items (PTuple xs) = Inr xs"
| "py_items (PList xs) = Inr xs"
| "py_items (PStr s) = Inr (map (\<lambda>c. AStr [c]) s)"
| "py_items v = Inl TypeError"

text \<open>The number a scalar stands for in a comparison (\<^verbatim>\<open>True\<close> is 1, \<^verbatim>\<open>False\<close> is 0).\<close>

fun num_of :: "pyatom \<Rightarrow> real option" where
  "num_of (ABool b) = Some (if b then 1 else 0)"
| "num_of (AInt i) = Some (of_int i)"
| "num_of (AFloat r) = Some r"
| "num_of a = None"

text \<open>Strings are ordered lexicographically by code point.\<close>

fun str_lt :: "string \<Rightarrow> string \<Rightarrow> bool" where
  "str_lt [] [] = False"
| "str_lt [] (d # t) = True"
| "str_lt (c # s) [] = False"
| "str_lt (c # s) (d # t) =
     (if (of_char c :: nat) < of_char d then True
      else if (of_char d :: nat) < of_char c then False
      else str_lt s t)"

text \<open>\<^verbatim>\<open>x < y\<close> on scalars: numbers compare by value, strings with strings; every
  other pairing raises \<^verbatim>\<open>TypeError\<close>.\<close>

fun py_lt :: "pyatom \<Rightarrow> pyatom \<Rightarrow> pyerror + bool" where
  "py_lt (AStr s) (AStr t) = Inr (str_lt s t)"
| "py_lt x y =
     (case (num_of x, num_of y) of
        (Some p, Some q) \<Rightarrow> Inr (p < q)
      | _ \<Rightarrow> Inl TypeError)"

text \<open>\<^verbatim>\<open>x >= y\<close> on scalars, used to say that a percentile pair is not strictly
  ordered.\<close>

fun py_ge :: "pyatom \<Rightarrow> pyatom \<Rightarrow> pyerror + bool" where
  "py_ge (AStr s) (AStr t) = Inr (\<not> str_lt s t)"
| "py_ge x y =
     (case (num_of x, num_of y) of
        (Some p, Some q) \<Rightarrow> Inr (p \<ge> q)
      | _ \<Rightarrow> Inl TypeError)"

section \<open>Keyword sets\<close>

text \<open>
  \<open>common\<close> holds the fifteen keywords that \<^verbatim>\<open>imgplot\<close>, \<^verbatim>\<open>imghist\<close> and the
  image-setup helper \<^verbatim>\<open>_SetupImage\<close> all take; \<open>setup_image\<close> is the keyword set of
  \<^verbatim>\<open>_SetupImage\<close>, \<open>imgplot_args\<close> that of \<^verbatim>\<open>imgplot\<close> and \<open>imghist_args\<close> that
  of \<^verbatim>\<open>imghist\<close>.
\<close>

record common =
  data :: pydata
  cmap :: pyval
  vmin :: pyval
  vmax :: pyval
  robust :: pyval
  perc :: pyval
  dx :: pyval
  units :: pyval
  dimension :: pyval
  cbar :: pyval
  orientation :: pyval
  cbar_label :: pyval
  cbar_ticks :: pyval
  showticks :: pyval
  despine :: pyval

record setup_image = common +
  ax :: pyval

record imgplot_args = setup_image +
  gray :: pyval
  describe :: pyval

record imghist_args = common +
  bins :: pyval
  describe :: pyval
  height :: real
  aspect :: real

section \<open>The plotting library and the image-setup helper\<close>

text \<open>
  Calls into matplotlib are recorded in the order they are made, and are taken to
  return normally. The model follows one figure, the one the calls draw on, and keeps the
  length of its list of axes (\<^verbatim>\<open>f.axes\<close>), which \<^verbatim>\<open>imghist\<close> indexes.
\<close>

datatype sharing = ShareX | ShareY

datatype cm_source = CurrentDefault | QualColormap string | MplColormap pyval

datatype event =
    Figure real real
  | GridSpec nat nat "real list"
  | AddSubplot nat "sharing option"
  | SetupImagePlot setup_image
  | PrintDescribe
  | Hist pyval string
  | XAxisInvisible
  | YAxisInvisible
  | FrameOff
  | FaceColors cm_source

record world =
  calls :: "event list"
  f_axes :: nat

text \<open>
  Two parts of the package are not in \<^verbatim>\<open>_general.py\<close> and are parameters of the model:
  \<^item> \<open>setup_plot\<close>: what \<^verbatim>\<open>_SetupImage(...).plot()\<close> (module \<^verbatim>\<open>_core\<close>) does with the
    keyword set it is given: it raises, or it draws and adds some number of axes (the
    colorbar axes, when it builds one) to the figure of the image axes;
  \<^item> \<open>cmap_qual\<close>: the keys of the table \<^verbatim>\<open>_CMAP_QUAL\<close> (module \<^verbatim>\<open>_colormap\<close>).
\<close>

record env =
  setup_plot :: "setup_image \<Rightarrow> pyerror + nat"
  cmap_qual :: "string list"

text \<open>\<^verbatim>\<open>skimage.color.rgb2gray\<close> drops the channel axis of the array;
  \<^verbatim>\<open>imgplot\<close> applies it to three-dimensional arrays only.\<close>

fun rgb2gray :: "pydata \<Rightarrow> pydata" where
  "rgb2gray (Ndarray n) = Ndarray (n - 1)"
| "rgb2gray NestedList = NestedList"

section \<open>imgplot\<close>

text \<open>Lines 217-218: \<^verbatim>\<open>assert len(perc) == 2\<close>, then
  \<^verbatim>\<open>assert perc[0] < perc[1]\<close>.\<close>

definition check_perc :: "pyval \<Rightarrow> pyerror + unit" where
  "check_perc p =
     (case py_items p of
        Inl e \<Rightarrow> Inl e
      | Inr xs \<Rightarrow>
          if length xs \<noteq> 2 then Inl AssertionError
          else (case py_lt (xs ! 0) (xs ! 1) of
                  Inl e \<Rightarrow> Inl e
                | Inr b \<Rightarrow> if b then Inr () else Inl AssertionError))"

text \<open>Lines 202-234: the checks of the keyword options, in the order of the source.\<close>

definition imgplot_checks :: "imgplot_args \<Rightarrow> pyerror + unit" where
  "imgplot_checks a =
     (if cmap a \<noteq> PNone \<and> \<not> (is_str (cmap a) \<or> is_colormap (cmap a)) then Inl TypeError
      else if ax a \<noteq> PNone \<and> \<not> is_axes (ax a) then Inl TypeError
      else if \<not> is_bool (imgplot_args.describe a) then Inl TypeError
      else if \<not> is_bool (robust a) then Inl TypeError
      else (case (if robust a = PBool True then check_perc (perc a) else Inr ()) of
              Inl e \<Rightarrow> Inl e
            | Inr u \<Rightarrow>
                if \<not> is_bool (cbar a) then Inl TypeError
                else if \<not> is_str (orientation a) then Inl TypeError
                else if cbar_label a \<noteq> PNone \<and> \<not> is_str (cbar_label a) then Inl TypeError
                else if \<not> is_bool (showticks a) then Inl TypeError
                else if \<not> is_bool (despine a) then Inl TypeError
                else Inr ()))"

text \<open>Lines 236-263: the keyword set handed to \<^verbatim>\<open>_SetupImage\<close>, after the rebinding
  of \<^verbatim>\<open>cbar\<close>, \<^verbatim>\<open>robust\<close>, \<^verbatim>\<open>data\<close> and \<^verbatim>\<open>cmap\<close>.\<close>

definition imgplot_setup :: "imgplot_args \<Rightarrow> setup_image" where
  "imgplot_setup a =
     (let rgb = (case data a of Ndarray n \<Rightarrow> n = 3 | NestedList \<Rightarrow> False);
          cbar' = (if rgb then PBool False else cbar a);
          robust' = (if rgb then PBool False else robust a);
          data' = (if rgb \<and> gray a = PBool True then rgb2gray (data a) else data a);
          cmap' = (if gray a = PBool True \<and> cmap a = PNone then PStr ''gray'' else cmap a)
      in \<lparr>data = data', cmap = cmap', vmin = vmin a, vmax = vmax a, robust = robust',
          perc = perc a, dx = dx a, units = units a, dimension = dimension a, cbar = cbar',
          orientation = orientation a, cbar_label = cbar_label a,
          cbar_ticks = cbar_ticks a, showticks = showticks a, despine = despine a,
          ax = ax a\<rparr>)"

text \<open>The whole of \<^verbatim>\<open>imgplot\<close>. With \<^verbatim>\<open>ax=None\<close> the helper generates the figure and
  the image axes itself (docstring of \<^verbatim>\<open>ax\<close>). \<^verbatim>\<open>data.flatten()\<close> (line 268) reads the
  rebound \<^verbatim>\<open>data\<close>.\<close>

definition imgplot :: "env \<Rightarrow> imgplot_args \<Rightarrow> world \<Rightarrow> world \<times> (pyerror + pyval)" where
  "imgplot env a w =
     (case imgplot_checks a of
        Inl e \<Rightarrow> (w, Inl e)
      | Inr u \<Rightarrow>
          let cfg = imgplot_setup a;
              w1 = w\<lparr>calls := calls w @ [SetupImagePlot cfg]\<rparr>
          in (case setup_plot env cfg of
                Inl e \<Rightarrow> (w1, Inl e)
              | Inr k \<Rightarrow>
                  let w2 = w1\<lparr>f_axes := (if ax a = PNone then 1 else f_axes w1) + k\<rparr>
                  in if truthy (imgplot_args.describe a) then
                       (case data cfg of
                          Ndarray n \<Rightarrow> (w2\<lparr>calls := calls w2 @ [PrintDescribe]\<rparr>, Inr PAxes)
                        | NestedList \<Rightarrow> (w2, Inl AttributeError))
                     else (w2, Inr PAxes)))"

section \<open>imghist\<close>

text \<open>Lines 423-429: \<^verbatim>\<open>bins\<close> is replaced by \<^verbatim>\<open>"auto"\<close> when it is \<^verbatim>\<open>None\<close>, and has
  to be a positive integer otherwise.\<close>

fun int_of :: "pyval \<Rightarrow> int" where
  "int_of (PInt i) = i"
| "int_of (PBool b) = (if b then 1 else 0)"
| "int_of v = 0"

definition check_bins :: "pyval \<Rightarrow> pyerror + pyval" where
  "check_bins b =
     (if b = PNone then Inr (PStr ''auto'')
      else if \<not> is_int b then Inl TypeError
      else if \<not> 0 < int_of b then Inl ValueError
      else Inr b)"

text \<open>Lines 431-444: the orientation is normalised and the figure and its grid are
  created, or the orientation is rejected.\<close>

definition imghist_layout :: "imghist_args \<Rightarrow> pyerror + pyval \<times> event list" where
  "imghist_layout a =
     (if orientation a \<in> set [PStr ''v'', PStr ''vertical''] then
        Inr (PStr ''vertical'',
             [Figure (height a * aspect a) (height a),
              GridSpec 1 2 [height a - 1, 1]])
      else if orientation a \<in> set [PStr ''h'', PStr ''horizontal''] then
        Inr (PStr ''horizontal'',
             [Figure (height a) (height a * aspect a),
              GridSpec 2 1 [height a - 1, 1]])
      else Inl ValueError)"

text \<open>Lines 448-466: the keywords \<^verbatim>\<open>imghist\<close> passes to \<^verbatim>\<open>imgplot\<close>; \<^verbatim>\<open>gray\<close> is
  left at its default.\<close>

definition imghist_imgplot_args :: "imghist_args \<Rightarrow> pyval \<Rightarrow> imgplot_args" where
  "imghist_imgplot_args a orient =
     \<lparr>data = data a, cmap = cmap a, vmin = vmin a, vmax = vmax a, robust = robust a,
      perc = perc a, dx = dx a, units = units a, dimension = dimension a, cbar = cbar a,
      orientation = orient, cbar_label = cbar_label a, cbar_ticks = cbar_ticks a,
      showticks = showticks a, despine = despine a, ax = PAxes, gray = PNone,
      imgplot_args.describe = imghist_args.describe a\<rparr>"

text \<open>Lines 491-497: the colormap of the histogram bars.\<close>

definition hist_colormap :: "env \<Rightarrow> pyval \<Rightarrow> cm_source" where
  "hist_colormap env c =
     (if c = PNone then CurrentDefault
      else (case c of
              PStr s \<Rightarrow> if s \<in> set (cmap_qual env) then QualColormap s else MplColormap c
            | _ \<Rightarrow> MplColormap c))"

text \<open>Lines 471-506: the histogram panel; \<open>orient\<close> is one of the two normalised
  strings. \<^verbatim>\<open>data.ravel()\<close> is evaluated after the subplot is added. Lines 499-506
  (bin centres scaled to the unit interval and mapped through the colormap) are the one
  call \<open>FaceColors\<close>.\<close>

definition imghist_panel :: "env \<Rightarrow> imghist_args \<Rightarrow> pyval \<Rightarrow> pyval \<Rightarrow> world
    \<Rightarrow> world \<times> (pyerror + pyval)" where
  "imghist_panel env a bins' orient w =
     (let vertical = (orient = PStr ''vertical'');
          w1 = w\<lparr>calls := calls w @ [AddSubplot 1 (Some (if vertical then ShareY else ShareX))],
                 f_axes := f_axes w + 1\<rparr>
      in (case data a of
            NestedList \<Rightarrow> (w1, Inl AttributeError)
          | Ndarray n \<Rightarrow>
              (w1\<lparr>calls := calls w1
                     @ [Hist bins' (if vertical then ''horizontal'' else ''vertical'')]
                     @ (if \<not> truthy (showticks a) then [XAxisInvisible, YAxisInvisible] else [])
                     @ [FrameOff]
                     @ [FaceColors (hist_colormap env (cmap a))]\<rparr>,
               Inr PFigure)))"

text \<open>The whole of \<^verbatim>\<open>imghist\<close>. \<^verbatim>\<open>plt.figure\<close> starts a new figure, which has the
  image axes only after \<^verbatim>\<open>f.add_subplot(gs[0])\<close>; \<^verbatim>\<open>f.axes[1]\<close> (line 469) raises
  \<^verbatim>\<open>IndexError\<close> when the figure still has one axes after \<^verbatim>\<open>imgplot\<close>.\<close>

definition imghist :: "env \<Rightarrow> imghist_args \<Rightarrow> world \<Rightarrow> world \<times> (pyerror + pyval)" where
  "imghist env a w =
     (case check_bins (bins a) of
        Inl e \<Rightarrow> (w, Inl e)
      | Inr bins' \<Rightarrow>
          (case imghist_layout a of
             Inl e \<Rightarrow> (w, Inl e)
           | Inr (orient, layout) \<Rightarrow>
               let w1 = w\<lparr>calls := calls w @ layout @ [AddSubplot 0 None], f_axes := 1\<rparr>
               in (case imgplot env (imghist_imgplot_args a orient) w1 of
                     (w2, Inl e) \<Rightarrow> (w2, Inl e)
                   | (w2, Inr ax1) \<Rightarrow>
                       if f_axes w2 < 2 then (w2, Inl IndexError)
                       else imghist_panel env a bins' orient w2)))"

section \<open>Default arguments and a reference environment\<close>

text \<open>The defaults of the two signatures (lines 16-35 and 280-300).\<close>

definition imgplot_defaults :: "pydata \<Rightarrow> imgplot_args" where
  "imgplot_defaults d =
     \<lparr>data = d, cmap = PNone, vmin = PNone, vmax = PNone, robust = PBool False,
      perc = PTuple [AInt 2, AInt 98], dx = PNone, units = PNone, dimension = PNone,
      cbar = PBool True, orientation = PStr ''v'', cbar_label = PNone, cbar_ticks = PNone,
      showticks = PBool False, despine = PBool True, ax = PNone, gray = PNone,
      imgplot_args.describe = PBool True\<rparr>"

definition imghist_defaults :: "pydata \<Rightarrow> imghist_args" where
  "imghist_defaults d =
     \<lparr>data = d, cmap = PNone, vmin = PNone, vmax = PNone, robust = PBool False,
      perc = PTuple [AInt 2, AInt 98], dx = PNone, units = PNone, dimension = PNone,
      cbar = PBool True, orientation = PStr ''v'', cbar_label = PNone, cbar_ticks = PNone,
      showticks = PBool False, despine = PBool True, bins = PNone,
      imghist_args.describe = PBool True, height = 5, aspect = 1.75\<rparr>"

text \<open>Modelled from the spec: the image-setup helper \<^verbatim>\<open>_SetupImage\<close> and the table
  \<^verbatim>\<open>_CMAP_QUAL\<close> are defined in other modules of the package (\<^verbatim>\<open>_core\<close>,
  \<^verbatim>\<open>_colormap\<close>). The spec has the helper build the colorbar and return a figure, the
  image axes and the colorbar axes; in this environment it never raises and adds one
  colorbar axes to the figure exactly when \<^verbatim>\<open>cbar\<close> is true. \<open>world0\<close> is the world
  with nothing drawn.\<close>

definition env0 :: env where
  "env0 = \<lparr>setup_plot = (\<lambda>cfg. Inr (if cbar cfg = PBool True then 1 else 0)),
           cmap_qual = [''deep'']\<rparr>"

definition world0 :: world where
  "world0 = \<lparr>calls = [], f_axes = 0\<rparr>"

text \<open>The bin arguments of the histogram calls in a list of calls, in order.\<close>

fun hist_bins :: "event list \<Rightarrow> pyval list" where
  "hist_bins [] = []"
| "hist_bins (Hist b d # es) = b # hist_bins es"
| "hist_bins (e # es) = hist_bins es"

section \<open>Properties\<close>

subsection \<open>Shared lemmas\<close>

lemma imgplot_setup_rgb:
  "data a = Ndarray 3 \<Longrightarrow>
     cbar (imgplot_setup a) = PBool False \<and> robust (imgplot_setup a) = PBool False"
  by (simp add: imgplot_setup_def Let_def)

lemma imgplot_new_calls:
  assumes "e \<in> set (calls (fst (imgplot env a w)))" and "e \<notin> set (calls w)"
  shows "e = SetupImagePlot (imgplot_setup a) \<or> e = PrintDescribe"
  using assms
  by (auto simp: imgplot_def Let_def split: sum.splits if_splits pydata.splits)

lemma imgplot_calls_setup:
  "imgplot_checks a = Inr () \<Longrightarrow>
     SetupImagePlot (imgplot_setup a) \<in> set (calls (fst (imgplot env a w)))"
  by (auto simp: imgplot_def Let_def split: sum.splits pydata.splits)

lemma imghist_panel_setup_calls:
  "SetupImagePlot cfg \<in> set (calls (fst (imghist_panel env h b orient w))) \<Longrightarrow>
     SetupImagePlot cfg \<in> set (calls w)"
  by (auto simp: imghist_panel_def Let_def split: pydata.splits if_splits)

lemma imghist_layout_events:
  "imghist_layout h = Inr (orient, layout) \<Longrightarrow> SetupImagePlot cfg \<notin> set layout"
  by (auto simp: imghist_layout_def split: if_splits)

lemma imghist_new_setup_calls:
  assumes "SetupImagePlot cfg \<in> set (calls (fst (imghist env h w)))"
    and "SetupImagePlot cfg \<notin> set (calls w)"
  shows "\<exists>orient. cfg = imgplot_setup (imghist_imgplot_args h orient)"
proof (cases "check_bins (bins h)")
  case (Inl e)
  with assms show ?thesis by (simp add: imghist_def)
next
  case (Inr b)
  show ?thesis
  proof (cases "imghist_layout h")
    case (Inl e)
    with Inr assms show ?thesis by (simp add: imghist_def)
  next
    case lay: (Inr p)
    obtain orient layout where p: "p = (orient, layout)" by (cases p)
    let ?w1 = "w\<lparr>calls := calls w @ layout @ [AddSubplot 0 None], f_axes := 1\<rparr>"
    obtain w2 res where r: "imgplot env (imghist_imgplot_args h orient) ?w1 = (w2, res)"
      by (cases "imgplot env (imghist_imgplot_args h orient) ?w1")
    have notin1: "SetupImagePlot cfg \<notin> set (calls ?w1)"
      using assms(2) imghist_layout_events[OF lay[unfolded p]] by simp
    have "SetupImagePlot cfg \<in> set (calls w2)"
    proof (cases res)
      case (Inl e)
      with assms(1) Inr lay p r show ?thesis
        by (simp add: imghist_def del: One_nat_def)
    next
      case res: (Inr ax1)
      show ?thesis
      proof (cases "f_axes w2 < 2")
        case True
        with assms(1) Inr lay p r res show ?thesis
          by (simp add: imghist_def del: One_nat_def)
      next
        case False
        with assms(1) Inr lay p r res
        have "SetupImagePlot cfg \<in> set (calls (fst (imghist_panel env h b orient w2)))"
          by (simp add: imghist_def del: One_nat_def)
        then show ?thesis by (rule imghist_panel_setup_calls)
      qed
    qed
    then have "SetupImagePlot cfg \<in> set (calls (fst (imgplot env (imghist_imgplot_args h orient) ?w1)))"
      using r by simp
    from imgplot_new_calls[OF this notin1]
    show ?thesis by auto
  qed
qed

lemma imgplot_checks_fail:
  "imgplot_checks a = Inl e \<Longrightarrow> imgplot env a w = (w, Inl e)"
  by (simp add: imgplot_def)

lemma imghist_bins_fail:
  "check_bins (bins h) = Inl e \<Longrightarrow> imghist env h w = (w, Inl e)"
  by (simp add: imghist_def)

lemma imghist_composed:
  assumes "check_bins (bins h) = Inr b" and "imghist_layout h = Inr (orient, layout)"
  shows "imghist env h w =
     (case imgplot env (imghist_imgplot_args h orient)
             (w\<lparr>calls := calls w @ layout @ [AddSubplot 0 None], f_axes := 1\<rparr>) of
        (w2, Inl e) \<Rightarrow> (w2, Inl e)
      | (w2, Inr ax1) \<Rightarrow>
          if f_axes w2 < 2 then (w2, Inl IndexError)
          else imghist_panel env h b orient w2)"
  using assms by (simp add: imghist_def)

lemma imghist_imgplot_args_orientation:
  "imghist_imgplot_args (h\<lparr>orientation := x\<rparr>) orient = imghist_imgplot_args h orient"
  by (simp add: imghist_imgplot_args_def)

lemma imghist_panel_orientation:
  "imghist_panel env (h\<lparr>orientation := x\<rparr>) b orient w = imghist_panel env h b orient w"
  by (simp add: imghist_panel_def Let_def split: pydata.splits)

lemma imghist_orientation_eq:
  assumes "imghist_layout (h\<lparr>orientation := x\<rparr>) = imghist_layout (h\<lparr>orientation := y\<rparr>)"
  shows "imghist env (h\<lparr>orientation := x\<rparr>) w = imghist env (h\<lparr>orientation := y\<rparr>) w"
proof (cases "check_bins (bins h)")
  case (Inl e)
  then show ?thesis by (simp add: imghist_bins_fail)
next
  case (Inr b)
  show ?thesis
  proof (cases "imghist_layout (h\<lparr>orientation := y\<rparr>)")
    case (Inl e)
    with assms Inr show ?thesis by (simp add: imghist_def)
  next
    case lay: (Inr p)
    obtain orient layout where p: "p = (orient, layout)" by (cases p)
    have bx: "check_bins (bins (h\<lparr>orientation := x\<rparr>)) = Inr b"
      and "check_bins (bins (h\<lparr>orientation := y\<rparr>)) = Inr b"
      using Inr by simp_all
    then show ?thesis
      using assms lay p
      by (simp add: imghist_composed imghist_imgplot_args_orientation imghist_panel_orientation
            split: prod.splits sum.splits)
  qed
qed

lemma py_ge_not_lt: "py_ge x y = Inr True \<Longrightarrow> py_lt x y = Inr False"
  by (cases x; cases y) (auto split: if_splits)

lemma check_perc_unordered:
  assumes "py_items p = Inr [x, y]" and "py_ge x y = Inr True"
  shows "check_perc p = Inl AssertionError"
  using assms py_ge_not_lt[OF assms(2)] by (simp add: check_perc_def)

lemma check_perc_wrong_length:
  assumes "py_items p = Inr xs" and "length xs \<noteq> 2"
  shows "check_perc p = Inl AssertionError"
  using assms by (simp add: check_perc_def)

lemma hist_bins_append: "hist_bins (xs @ ys) = hist_bins xs @ hist_bins ys"
  by (induction xs rule: hist_bins.induct) simp_all

lemma imgplot_success:
  assumes "imgplot_checks a = Inr ()" and "setup_plot env (imgplot_setup a) = Inr k"
    and "data (imgplot_setup a) = Ndarray d"
  shows "imgplot env a w =
     (w\<lparr>calls := calls w @ [SetupImagePlot (imgplot_setup a)]
                  @ (if truthy (imgplot_args.describe a) then [PrintDescribe] else []),
        f_axes := (if ax a = PNone then 1 else f_axes w) + k\<rparr>, Inr PAxes)"
  using assms by (simp add: imgplot_def Let_def)

lemma imghist_imgplot_args_data:
  "data (imgplot_setup (imghist_imgplot_args h orient))
     = data h"
  by (simp add: imgplot_setup_def imghist_imgplot_args_def Let_def)

lemma imghist_success:
  assumes "check_bins (bins h) = Inr b" and "imghist_layout h = Inr (orient, layout)"
    and "imgplot_checks (imghist_imgplot_args h orient) = Inr ()"
    and "setup_plot env (imgplot_setup (imghist_imgplot_args h orient)) = Inr (Suc k)"
    and "data h = Ndarray d"
  shows "imghist env h w =
     (w\<lparr>calls := calls w @ layout
          @ [AddSubplot 0 None, SetupImagePlot (imgplot_setup (imghist_imgplot_args h orient))]
          @ (if truthy (imghist_args.describe h) then [PrintDescribe] else [])
          @ [AddSubplot 1 (Some (if orient = PStr ''vertical'' then ShareY else ShareX)),
             Hist b (if orient = PStr ''vertical'' then ''horizontal'' else ''vertical'')]
          @ (if \<not> truthy (showticks h) then [XAxisInvisible, YAxisInvisible] else [])
          @ [FrameOff, FaceColors (hist_colormap env (cmap h))],
        f_axes := Suc (Suc (Suc k))\<rparr>, Inr PFigure)"
proof -
  have d: "data (imgplot_setup (imghist_imgplot_args h orient)) = Ndarray d"
    using assms(5) by (simp add: imghist_imgplot_args_data)
  have ax: "ax (imghist_imgplot_args h orient) = PAxes"
    and de: "imgplot_args.describe (imghist_imgplot_args h orient) = imghist_args.describe h"
    by (simp_all add: imghist_imgplot_args_def)
  show ?thesis
    unfolding imghist_composed[OF assms(1,2)] imgplot_success[OF assms(3,4) d]
    using assms(5) by (simp add: ax de imghist_panel_def Let_def)
qed

lemma imghist_success_cases:
  assumes "imghist env h w = (w', Inr r)"
  obtains b orient layout k d where "check_bins (bins h) = Inr b"
    and "imghist_layout h = Inr (orient, layout)"
    and "imgplot_checks (imghist_imgplot_args h orient) = Inr ()"
    and "setup_plot env (imgplot_setup (imghist_imgplot_args h orient)) = Inr (Suc k)"
    and "data h = Ndarray d"
proof -
  obtain b where b: "check_bins (bins h) = Inr b"
    using assms by (cases "check_bins (bins h)") (simp_all add: imghist_def)
  obtain orient layout where lay: "imghist_layout h = Inr (orient, layout)"
    using assms b by (cases "imghist_layout h") (auto simp: imghist_def)
  let ?a = "imghist_imgplot_args h orient"
  let ?w1 = "w\<lparr>calls := calls w @ layout @ [AddSubplot 0 None], f_axes := 1\<rparr>"
  have ck: "imgplot_checks ?a = Inr ()"
    using assms b lay
    by (cases "imgplot_checks ?a") (simp_all add: imghist_composed imgplot_checks_fail)
  obtain n where n: "setup_plot env (imgplot_setup ?a) = Inr n"
    using assms ck
    by (cases "setup_plot env (imgplot_setup ?a)")
       (simp_all add: imghist_composed[OF b lay] imgplot_def Let_def)
  have ax: "ax ?a = PAxes" by (simp add: imghist_imgplot_args_def)
  obtain w2 res where r: "imgplot env ?a ?w1 = (w2, res)"
    by (cases "imgplot env ?a ?w1")
  have f2: "f_axes w2 = Suc n"
    using r ck n ax
    by (auto simp: imgplot_def Let_def split: if_splits pydata.splits)
  obtain ax1 where res: "res = Inr ax1"
    using assms r by (cases res) (simp_all add: imghist_composed[OF b lay])
  have ge: "\<not> f_axes w2 < 2"
    using assms r res by (auto simp: imghist_composed[OF b lay] split: if_splits)
  then obtain k where k: "n = Suc k" using f2 by (cases n) simp_all
  obtain d where d: "data h = Ndarray d"
    using assms r res ge
    by (cases "data h") (simp_all add: imghist_composed[OF b lay] imghist_panel_def Let_def)
  from b lay ck n[unfolded k] d show ?thesis by (rule that)
qed

lemma imgplot_setup_gray_not_true:
  "g \<noteq> PBool True \<Longrightarrow> imgplot_setup (a\<lparr>gray := g\<rparr>) = imgplot_setup (a\<lparr>gray := PNone\<rparr>)"
  by (simp add: imgplot_setup_def Let_def)

lemma imghist_setup_orientation:
  assumes "SetupImagePlot cfg \<in> set (calls (fst (imghist env h w)))"
    and "SetupImagePlot cfg \<notin> set (calls w)"
    and "imghist_layout h = Inr (orient, layout)"
  shows "orientation cfg = orient"
proof (cases "check_bins (bins h)")
  case (Inl e)
  with assms show ?thesis by (simp add: imghist_bins_fail)
next
  case (Inr b)
  let ?w1 = "w\<lparr>calls := calls w @ layout @ [AddSubplot 0 None], f_axes := 1\<rparr>"
  obtain w2 res where r: "imgplot env (imghist_imgplot_args h orient) ?w1 = (w2, res)"
    by (cases "imgplot env (imghist_imgplot_args h orient) ?w1")
  have notin1: "SetupImagePlot cfg \<notin> set (calls ?w1)"
    using assms(2) imghist_layout_events[OF assms(3)] by simp
  have "SetupImagePlot cfg \<in> set (calls w2)"
  proof (cases res)
    case (Inl e)
    with assms(1) r show ?thesis
      by (simp add: imghist_composed[OF Inr assms(3)])
  next
    case res: (Inr ax1)
    show ?thesis
    proof (cases "f_axes w2 < 2")
      case True
      with assms(1) r res show ?thesis
        by (simp add: imghist_composed[OF Inr assms(3)])
    next
      case False
      with assms(1) r res
      have "SetupImagePlot cfg \<in> set (calls (fst (imghist_panel env h b orient w2)))"
        by (simp add: imghist_composed[OF Inr assms(3)])
      then show ?thesis by (rule imghist_panel_setup_calls)
    qed
  qed
  then have "SetupImagePlot cfg
      \<in> set (calls (fst (imgplot env (imghist_imgplot_args h orient) ?w1)))"
    using r by simp
  from imgplot_new_calls[OF this notin1]
  have "cfg = imgplot_setup (imghist_imgplot_args h orient)" by simp
  then show ?thesis
    by (simp add: imgplot_setup_def imghist_imgplot_args_def Let_def)
qed

subsection \<open>C1: RGB input\<close>

text \<open>
  C1. For a three-dimensional \<^verbatim>\<open>ndarray\<close>, every call of the image-setup helper made by
  \<^verbatim>\<open>imgplot\<close>, and by \<^verbatim>\<open>imghist\<close> for its image panel, has \<^verbatim>\<open>cbar=False\<close> and
  \<^verbatim>\<open>robust=False\<close>, whatever the caller passed; and \<^verbatim>\<open>imgplot\<close> does call the helper
  once its checks pass.
\<close>

theorem rgb_disables_cbar_and_robust:
  assumes "data a = Ndarray 3" and "data h = Ndarray 3"
  shows "(imgplot_checks a = Inr () \<longrightarrow>
            SetupImagePlot (imgplot_setup a) \<in> set (calls (fst (imgplot env a w))))
       \<and> (\<forall>cfg. SetupImagePlot cfg \<in> set (calls (fst (imgplot env a w))) - set (calls w)
            \<longrightarrow> cbar cfg = PBool False \<and> robust cfg = PBool False)
       \<and> (\<forall>cfg. SetupImagePlot cfg \<in> set (calls (fst (imghist env h w))) - set (calls w)
            \<longrightarrow> cbar cfg = PBool False \<and> robust cfg = PBool False)"
proof (intro conjI allI impI)
  assume "imgplot_checks a = Inr ()"
  then show "SetupImagePlot (imgplot_setup a) \<in> set (calls (fst (imgplot env a w)))"
    by (rule imgplot_calls_setup)
next
  fix cfg
  assume "SetupImagePlot cfg \<in> set (calls (fst (imgplot env a w))) - set (calls w)"
  then have "SetupImagePlot cfg = SetupImagePlot (imgplot_setup a) \<or> SetupImagePlot cfg = PrintDescribe"
    using imgplot_new_calls by blast
  then have cfg: "cfg = imgplot_setup a" by simp
  show "cbar cfg = PBool False" "robust cfg = PBool False"
    using imgplot_setup_rgb[OF assms(1)] cfg by simp_all
next
  fix cfg
  assume "SetupImagePlot cfg \<in> set (calls (fst (imghist env h w))) - set (calls w)"
  then obtain orient where cfg: "cfg = imgplot_setup (imghist_imgplot_args h orient)"
    using imghist_new_setup_calls by blast
  have "data (imghist_imgplot_args h orient) = Ndarray 3"
    using assms(2) by (simp add: imghist_imgplot_args_def)
  from imgplot_setup_rgb[OF this] cfg
  show "cbar cfg = PBool False" "robust cfg = PBool False" by simp_all
qed


theorem rgb_disables_cbar_and_robust_witness:
  "data ((imgplot_defaults (Ndarray 3))\<lparr>robust := PBool True\<rparr>) = Ndarray 3
   \<and> data ((imghist_defaults (Ndarray 3))\<lparr>robust := PBool True\<rparr>) = Ndarray 3
   \<and> cbar ((imgplot_defaults (Ndarray 3))\<lparr>robust := PBool True\<rparr>) = PBool True
   \<and> imgplot_checks ((imgplot_defaults (Ndarray 3))\<lparr>robust := PBool True\<rparr>) = Inr ()
   \<and> SetupImagePlot (imgplot_setup ((imgplot_defaults (Ndarray 3))\<lparr>robust := PBool True\<rparr>))
         \<in> set (calls (fst (imgplot env0
               ((imgplot_defaults (Ndarray 3))\<lparr>robust := PBool True\<rparr>) world0)))
   \<and> cbar (imgplot_setup ((imgplot_defaults (Ndarray 3))\<lparr>robust := PBool True\<rparr>))
         = PBool False
   \<and> robust (imgplot_setup ((imgplot_defaults (Ndarray 3))\<lparr>robust := PBool True\<rparr>))
         = PBool False
   \<and> SetupImagePlot (imgplot_setup (imghist_imgplot_args
           ((imghist_defaults (Ndarray 3))\<lparr>robust := PBool True\<rparr>) (PStr ''vertical'')))
         \<in> set (calls (fst (imghist env0
               ((imghist_defaults (Ndarray 3))\<lparr>robust := PBool True\<rparr>) world0)))
   \<and> cbar (imgplot_setup (imghist_imgplot_args
           ((imghist_defaults (Ndarray 3))\<lparr>robust := PBool True\<rparr>) (PStr ''vertical'')))
         = PBool False
   \<and> robust (imgplot_setup (imghist_imgplot_args
           ((imghist_defaults (Ndarray 3))\<lparr>robust := PBool True\<rparr>) (PStr ''vertical'')))
         = PBool False"
proof -
  let ?a = "(imgplot_defaults (Ndarray 3))\<lparr>robust := PBool True\<rparr>"
  let ?h = "(imghist_defaults (Ndarray 3))\<lparr>robust := PBool True\<rparr>"
  let ?c = "imgplot_setup (imghist_imgplot_args ?h (PStr ''vertical''))"
  have da: "data ?a = Ndarray 3" by (simp add: imgplot_defaults_def)
  have dh: "data ?h = Ndarray 3" by (simp add: imghist_defaults_def)
  have ck: "imgplot_checks ?a = Inr ()"
    by (simp add: imgplot_checks_def imgplot_defaults_def check_perc_def)
  have cb: "cbar ?a = PBool True" by (simp add: imgplot_defaults_def)
  note t = rgb_disables_cbar_and_robust [OF da dh, of env0 world0]
  from t ck have call: "SetupImagePlot (imgplot_setup ?a)
      \<in> set (calls (fst (imgplot env0 ?a world0)))" by blast
  have "SetupImagePlot (imgplot_setup ?a) \<notin> set (calls world0)" by (simp add: world0_def)
  with t call have 1: "cbar (imgplot_setup ?a) = PBool False"
    "robust (imgplot_setup ?a) = PBool False"
    by blast+
  have hcall: "SetupImagePlot ?c \<in> set (calls (fst (imghist env0 ?h world0)))"
    by (simp add: imghist_def check_bins_def imghist_layout_def imghist_imgplot_args_def
        imgplot_def imgplot_checks_def imgplot_setup_def check_perc_def
        imghist_defaults_def env0_def world0_def Let_def)
  have "SetupImagePlot ?c \<notin> set (calls world0)" by (simp add: world0_def)
  with t hcall have 2: "cbar ?c = PBool False" "robust ?c = PBool False"
    by blast+
  from da dh ck cb call 1 hcall 2 show ?thesis by blast
qed

subsection \<open>C2: validation and rendering\<close>

text \<open>
  With a \<^verbatim>\<open>cmap\<close> that is neither a string nor a colormap, \<^verbatim>\<open>imghist\<close> has
  created the figure, the grid and the image axes when \<^verbatim>\<open>imgplot\<close> raises the type
  error.
\<close>

theorem imghist_figure_before_validation_counterexample:
  "imghist env0 ((imghist_defaults (Ndarray 2))\<lparr>cmap := PInt 5\<rparr>) world0
     = (\<lparr>calls = [Figure (35 / 4) 5, GridSpec 1 2 [4, 1], AddSubplot 0 None], f_axes = 1\<rparr>,
        Inl TypeError)"
  by (simp add: imghist_def check_bins_def imghist_layout_def imghist_imgplot_args_def
        imgplot_def imgplot_checks_def imghist_defaults_def world0_def)

text \<open>
  C2 (amended). A failed check of \<^verbatim>\<open>imgplot\<close> (type error or \<^verbatim>\<open>perc\<close> assertion) is
  raised before any rendering call: the world is unchanged. In \<^verbatim>\<open>imghist\<close>, a failed
  \<^verbatim>\<open>bins\<close> or \<^verbatim>\<open>orientation\<close> check is raised before anything is created, whereas
  a failed check of \<^verbatim>\<open>imgplot\<close> is raised after \<^verbatim>\<open>imghist\<close> has created the figure,
  the grid and the image axes, and before anything is drawn on them.
\<close>

theorem validation_before_rendering:
  "(imgplot_checks a = Inl e \<longrightarrow> imgplot env a w = (w, Inl e))
   \<and> (check_bins (bins h) = Inl e \<longrightarrow> imghist env h w = (w, Inl e))
   \<and> (check_bins (bins h) = Inr b \<and> imghist_layout h = Inl e \<longrightarrow> imghist env h w = (w, Inl e))
   \<and> (check_bins (bins h) = Inr b \<and> imghist_layout h = Inr (orient, layout)
        \<and> imgplot_checks (imghist_imgplot_args h orient) = Inl e \<longrightarrow>
        imghist env h w
          = (w\<lparr>calls := calls w @ layout @ [AddSubplot 0 None], f_axes := 1\<rparr>, Inl e))"
  by (simp add: imgplot_checks_fail imghist_def)

theorem validation_before_rendering_witness:
  "imgplot_checks ((imgplot_defaults (Ndarray 2))\<lparr>cbar := PStr ''yes''\<rparr>) = Inl TypeError
   \<and> imgplot env0 ((imgplot_defaults (Ndarray 2))\<lparr>cbar := PStr ''yes''\<rparr>) world0
       = (world0, Inl TypeError)
   \<and> check_bins (bins ((imghist_defaults (Ndarray 2))\<lparr>bins := PFloat 2.5\<rparr>)) = Inl TypeError
   \<and> imghist env0 ((imghist_defaults (Ndarray 2))\<lparr>bins := PFloat 2.5\<rparr>) world0
       = (world0, Inl TypeError)
   \<and> imghist_layout ((imghist_defaults (Ndarray 2))\<lparr>orientation := PStr ''diagonal''\<rparr>)
       = Inl ValueError
   \<and> imghist env0 ((imghist_defaults (Ndarray 2))\<lparr>orientation := PStr ''diagonal''\<rparr>) world0
       = (world0, Inl ValueError)
   \<and> imgplot_checks (imghist_imgplot_args
         ((imghist_defaults (Ndarray 2))\<lparr>robust := PBool True, perc := PTuple [AInt 98, AInt 2]\<rparr>)
         (PStr ''vertical'')) = Inl AssertionError
   \<and> imghist env0
         ((imghist_defaults (Ndarray 2))\<lparr>robust := PBool True, perc := PTuple [AInt 98, AInt 2]\<rparr>)
         world0
       = (\<lparr>calls = [Figure (35 / 4) 5, GridSpec 1 2 [4, 1], AddSubplot 0 None], f_axes = 1\<rparr>,
          Inl AssertionError)"
proof -
  let ?a = "(imgplot_defaults (Ndarray 2))\<lparr>cbar := PStr ''yes''\<rparr>"
  let ?h1 = "(imghist_defaults (Ndarray 2))\<lparr>bins := PFloat 2.5\<rparr>"
  let ?h2 = "(imghist_defaults (Ndarray 2))\<lparr>orientation := PStr ''diagonal''\<rparr>"
  let ?h3 = "(imghist_defaults (Ndarray 2))\<lparr>robust := PBool True, perc := PTuple [AInt 98, AInt 2]\<rparr>"
  let ?lay = "[Figure (35 / 4) 5, GridSpec 1 2 [4, 1]]"
  have a: "imgplot_checks ?a = Inl TypeError"
    by (simp add: imgplot_checks_def imgplot_defaults_def)
  have b1: "check_bins (bins ?h1) = Inl TypeError"
    by (simp add: check_bins_def imghist_defaults_def)
  have b2: "check_bins (bins ?h2) = Inr (PStr ''auto'')"
    and b3: "check_bins (bins ?h3) = Inr (PStr ''auto'')"
    by (simp_all add: check_bins_def imghist_defaults_def)
  have l2: "imghist_layout ?h2 = Inl ValueError"
    by (simp add: imghist_layout_def imghist_defaults_def)
  have l3: "imghist_layout ?h3 = Inr (PStr ''vertical'', ?lay)"
    by (simp add: imghist_layout_def imghist_defaults_def)
  have c3: "imgplot_checks (imghist_imgplot_args ?h3 (PStr ''vertical'')) = Inl AssertionError"
    by (simp add: imgplot_checks_def imghist_imgplot_args_def imghist_defaults_def check_perc_def)
  have 1: "imgplot env0 ?a world0 = (world0, Inl TypeError)"
    using validation_before_rendering [where a = ?a and e = TypeError and env = env0
        and w = world0] a by blast
  have 2: "imghist env0 ?h1 world0 = (world0, Inl TypeError)"
    using validation_before_rendering [where h = ?h1 and e = TypeError and env = env0
        and w = world0] b1 by blast
  have 3: "imghist env0 ?h2 world0 = (world0, Inl ValueError)"
    using validation_before_rendering [where h = ?h2 and e = ValueError and env = env0
        and w = world0 and b = "PStr ''auto''"] b2 l2 by blast
  have "imghist env0 ?h3 world0
      = (world0\<lparr>calls := calls world0 @ ?lay @ [AddSubplot 0 None], f_axes := 1\<rparr>,
         Inl AssertionError)"
    using validation_before_rendering [where h = ?h3 and e = AssertionError and env = env0
        and w = world0 and b = "PStr ''auto''" and orient = "PStr ''vertical''"
        and layout = ?lay] b3 l3 c3 by blast
  then have 4: "imghist env0 ?h3 world0
      = (\<lparr>calls = [Figure (35 / 4) 5, GridSpec 1 2 [4, 1], AddSubplot 0 None], f_axes = 1\<rparr>,
         Inl AssertionError)"
    by (simp add: world0_def)
  from a 1 b1 2 l2 3 c3 4 show ?thesis by blast
qed

subsection \<open>C3: orientation of imghist\<close>

text \<open>
  C3. In \<^verbatim>\<open>imghist\<close>, \<^verbatim>\<open>"v"\<close> and \<^verbatim>\<open>"vertical"\<close> are both accepted and normalised to
  \<^verbatim>\<open>"vertical"\<close> with the one-by-two layout, \<^verbatim>\<open>"h"\<close> and \<^verbatim>\<open>"horizontal"\<close> to
  \<^verbatim>\<open>"horizontal"\<close> with the two-by-one layout; the two spellings of a pair give the
  same result, every call of the image-setup helper carries the normalised orientation,
  and with otherwise valid arguments the call returns the figure. With any other
  orientation value the call raises with nothing created, and the error is the value
  error whenever \<^verbatim>\<open>bins\<close> is \<^verbatim>\<open>None\<close> or an integer (the \<^verbatim>\<open>bins\<close> check comes first
  and raises a type error for any other \<^verbatim>\<open>bins\<close>).
\<close>

theorem orientation_shorthand_equivalent:
  "imghist env (h\<lparr>orientation := PStr ''v''\<rparr>) w
     = imghist env (h\<lparr>orientation := PStr ''vertical''\<rparr>) w
   \<and> imghist_layout (h\<lparr>orientation := PStr ''v''\<rparr>)
     = imghist_layout (h\<lparr>orientation := PStr ''vertical''\<rparr>)
   \<and> imghist env (h\<lparr>orientation := PStr ''h''\<rparr>) w
     = imghist env (h\<lparr>orientation := PStr ''horizontal''\<rparr>) w
   \<and> imghist_layout (h\<lparr>orientation := PStr ''h''\<rparr>)
     = imghist_layout (h\<lparr>orientation := PStr ''horizontal''\<rparr>)
   \<and> (orientation h \<notin> set [PStr ''v'', PStr ''vertical'', PStr ''h'', PStr ''horizontal''] \<longrightarrow>
        (\<exists>e. imghist env h w = (w, Inl e))
        \<and> (bins h = PNone \<or> is_int (bins h) \<longrightarrow> imghist env h w = (w, Inl ValueError)))
   \<and> imghist_layout (h\<lparr>orientation := PStr ''v''\<rparr>)
     = Inr (PStr ''vertical'',
            [Figure (height h * aspect h) (height h), GridSpec 1 2 [height h - 1, 1]])
   \<and> imghist_layout (h\<lparr>orientation := PStr ''h''\<rparr>)
     = Inr (PStr ''horizontal'',
            [Figure (height h) (height h * aspect h), GridSpec 2 1 [height h - 1, 1]])
   \<and> (\<forall>cfg. SetupImagePlot cfg
          \<in> set (calls (fst (imghist env (h\<lparr>orientation := PStr ''v''\<rparr>) w))) - set (calls w)
        \<longrightarrow> orientation cfg = PStr ''vertical'')
   \<and> (\<forall>cfg. SetupImagePlot cfg
          \<in> set (calls (fst (imghist env (h\<lparr>orientation := PStr ''h''\<rparr>) w))) - set (calls w)
        \<longrightarrow> orientation cfg = PStr ''horizontal'')
   \<and> (check_bins (bins h) = Inr b
        \<and> imgplot_checks (imghist_imgplot_args h (PStr ''vertical'')) = Inr ()
        \<and> setup_plot env (imgplot_setup (imghist_imgplot_args h (PStr ''vertical''))) = Inr (Suc k)
        \<and> data h = Ndarray d
      \<longrightarrow> snd (imghist env (h\<lparr>orientation := PStr ''v''\<rparr>) w) = Inr PFigure
        \<and> SetupImagePlot (imgplot_setup (imghist_imgplot_args h (PStr ''vertical'')))
            \<in> set (calls (fst (imghist env (h\<lparr>orientation := PStr ''v''\<rparr>) w))))
   \<and> (check_bins (bins h) = Inr b
        \<and> imgplot_checks (imghist_imgplot_args h (PStr ''horizontal'')) = Inr ()
        \<and> setup_plot env (imgplot_setup (imghist_imgplot_args h (PStr ''horizontal''))) = Inr (Suc k)
        \<and> data h = Ndarray d
      \<longrightarrow> snd (imghist env (h\<lparr>orientation := PStr ''h''\<rparr>) w) = Inr PFigure
        \<and> SetupImagePlot (imgplot_setup (imghist_imgplot_args h (PStr ''horizontal'')))
            \<in> set (calls (fst (imghist env (h\<lparr>orientation := PStr ''h''\<rparr>) w))))"
proof -
  let ?v = "h\<lparr>orientation := PStr ''v''\<rparr>"
  let ?g = "h\<lparr>orientation := PStr ''h''\<rparr>"
  let ?lv = "[Figure (height h * aspect h) (height h), GridSpec 1 2 [height h - 1, 1]]"
  let ?lh = "[Figure (height h) (height h * aspect h), GridSpec 2 1 [height h - 1, 1]]"
  have lv: "imghist_layout ?v = Inr (PStr ''vertical'', ?lv)"
    and lh: "imghist_layout ?g = Inr (PStr ''horizontal'', ?lh)"
    by (simp_all add: imghist_layout_def)
  have lve: "imghist_layout ?v = imghist_layout (h\<lparr>orientation := PStr ''vertical''\<rparr>)"
    and lhe: "imghist_layout ?g = imghist_layout (h\<lparr>orientation := PStr ''horizontal''\<rparr>)"
    by (simp_all add: imghist_layout_def)
  have ev: "imghist env ?v w = imghist env (h\<lparr>orientation := PStr ''vertical''\<rparr>) w"
    using lve by (rule imghist_orientation_eq)
  have eh: "imghist env ?g w = imghist env (h\<lparr>orientation := PStr ''horizontal''\<rparr>) w"
    using lhe by (rule imghist_orientation_eq)
  have rej: "orientation h \<notin> set [PStr ''v'', PStr ''vertical'', PStr ''h'', PStr ''horizontal''] \<longrightarrow>
        (\<exists>e. imghist env h w = (w, Inl e))
        \<and> (bins h = PNone \<or> is_int (bins h) \<longrightarrow> imghist env h w = (w, Inl ValueError))"
  proof (intro impI conjI)
    assume o: "orientation h \<notin> set [PStr ''v'', PStr ''vertical'', PStr ''h'', PStr ''horizontal'']"
    then have lay: "imghist_layout h = Inl ValueError"
      by (simp add: imghist_layout_def)
    show "\<exists>e. imghist env h w = (w, Inl e)"
      using lay by (cases "check_bins (bins h)") (simp_all add: imghist_def)
    assume "bins h = PNone \<or> is_int (bins h)"
    then have "check_bins (bins h) = Inl ValueError \<or> (\<exists>b'. check_bins (bins h) = Inr b')"
      by (auto simp: check_bins_def)
    then show "imghist env h w = (w, Inl ValueError)"
      using lay by (auto simp: imghist_def)
  qed
  have ov: "\<forall>cfg. SetupImagePlot cfg \<in> set (calls (fst (imghist env ?v w))) - set (calls w)
        \<longrightarrow> orientation cfg = PStr ''vertical''"
    using imghist_setup_orientation[OF _ _ lv] by blast
  have oh: "\<forall>cfg. SetupImagePlot cfg \<in> set (calls (fst (imghist env ?g w))) - set (calls w)
        \<longrightarrow> orientation cfg = PStr ''horizontal''"
    using imghist_setup_orientation[OF _ _ lh] by blast
  have av: "snd (imghist env ?v w) = Inr PFigure
        \<and> SetupImagePlot (imgplot_setup (imghist_imgplot_args h (PStr ''vertical'')))
            \<in> set (calls (fst (imghist env ?v w)))"
    if a: "check_bins (bins h) = Inr b
        \<and> imgplot_checks (imghist_imgplot_args h (PStr ''vertical'')) = Inr ()
        \<and> setup_plot env (imgplot_setup (imghist_imgplot_args h (PStr ''vertical''))) = Inr (Suc k)
        \<and> data h = Ndarray d"
  proof -
    have cb: "check_bins (bins ?v) = Inr b" and ck: "imgplot_checks (imghist_imgplot_args ?v (PStr ''vertical'')) = Inr ()"
      and sp: "setup_plot env (imgplot_setup (imghist_imgplot_args ?v (PStr ''vertical''))) = Inr (Suc k)"
      and d: "data ?v = Ndarray d"
      using a by (simp_all add: imghist_imgplot_args_orientation)
    show ?thesis
      unfolding imghist_success[OF cb lv ck sp d, of w]
      by (simp add: imghist_imgplot_args_orientation)
  qed
  have ah: "snd (imghist env ?g w) = Inr PFigure
        \<and> SetupImagePlot (imgplot_setup (imghist_imgplot_args h (PStr ''horizontal'')))
            \<in> set (calls (fst (imghist env ?g w)))"
    if a: "check_bins (bins h) = Inr b
        \<and> imgplot_checks (imghist_imgplot_args h (PStr ''horizontal'')) = Inr ()
        \<and> setup_plot env (imgplot_setup (imghist_imgplot_args h (PStr ''horizontal''))) = Inr (Suc k)
        \<and> data h = Ndarray d"
  proof -
    have cb: "check_bins (bins ?g) = Inr b" and ck: "imgplot_checks (imghist_imgplot_args ?g (PStr ''horizontal'')) = Inr ()"
      and sp: "setup_plot env (imgplot_setup (imghist_imgplot_args ?g (PStr ''horizontal''))) = Inr (Suc k)"
      and d: "data ?g = Ndarray d"
      using a by (simp_all add: imghist_imgplot_args_orientation)
    show ?thesis
      unfolding imghist_success[OF cb lh ck sp d, of w]
      by (simp add: imghist_imgplot_args_orientation)
  qed
  from ev lve eh lhe rej lv lh ov oh av ah show ?thesis by blast
qed

theorem orientation_shorthand_equivalent_witness:
  "orientation ((imghist_defaults (Ndarray 2))\<lparr>orientation := PStr ''diagonal''\<rparr>)
      \<notin> set [PStr ''v'', PStr ''vertical'', PStr ''h'', PStr ''horizontal'']
   \<and> bins ((imghist_defaults (Ndarray 2))\<lparr>orientation := PStr ''diagonal''\<rparr>) = PNone
   \<and> imghist env0 ((imghist_defaults (Ndarray 2))\<lparr>orientation := PStr ''diagonal''\<rparr>) world0
       = (world0, Inl ValueError)
   \<and> orientation ((imghist_defaults (Ndarray 2))\<lparr>orientation := PInt 0\<rparr>)
      \<notin> set [PStr ''v'', PStr ''vertical'', PStr ''h'', PStr ''horizontal'']
   \<and> imghist env0 ((imghist_defaults (Ndarray 2))\<lparr>orientation := PInt 0\<rparr>) world0
       = (world0, Inl ValueError)
   \<and> check_bins (bins (imghist_defaults (Ndarray 2))) = Inr (PStr ''auto'')
   \<and> data (imghist_defaults (Ndarray 2)) = Ndarray 2
   \<and> imgplot_checks (imghist_imgplot_args (imghist_defaults (Ndarray 2)) (PStr ''vertical''))
       = Inr ()
   \<and> setup_plot env0 (imgplot_setup
         (imghist_imgplot_args (imghist_defaults (Ndarray 2)) (PStr ''vertical''))) = Inr (Suc 0)
   \<and> imghist_layout ((imghist_defaults (Ndarray 2))\<lparr>orientation := PStr ''v''\<rparr>)
       = Inr (PStr ''vertical'', [Figure (35 / 4) 5, GridSpec 1 2 [4, 1]])
   \<and> imghist_layout ((imghist_defaults (Ndarray 2))\<lparr>orientation := PStr ''vertical''\<rparr>)
       = Inr (PStr ''vertical'', [Figure (35 / 4) 5, GridSpec 1 2 [4, 1]])
   \<and> snd (imghist env0 ((imghist_defaults (Ndarray 2))\<lparr>orientation := PStr ''v''\<rparr>) world0)
       = Inr PFigure
   \<and> snd (imghist env0 ((imghist_defaults (Ndarray 2))\<lparr>orientation := PStr ''vertical''\<rparr>) world0)
       = Inr PFigure
   \<and> SetupImagePlot (imgplot_setup
         (imghist_imgplot_args (imghist_defaults (Ndarray 2)) (PStr ''vertical'')))
       \<in> set (calls (fst (imghist env0
             ((imghist_defaults (Ndarray 2))\<lparr>orientation := PStr ''v''\<rparr>) world0)))
   \<and> orientation (imgplot_setup
         (imghist_imgplot_args (imghist_defaults (Ndarray 2)) (PStr ''vertical'')))
       = PStr ''vertical''
   \<and> imgplot_checks (imghist_imgplot_args (imghist_defaults (Ndarray 2)) (PStr ''horizontal''))
       = Inr ()
   \<and> setup_plot env0 (imgplot_setup
         (imghist_imgplot_args (imghist_defaults (Ndarray 2)) (PStr ''horizontal''))) = Inr (Suc 0)
   \<and> imghist_layout ((imghist_defaults (Ndarray 2))\<lparr>orientation := PStr ''h''\<rparr>)
       = Inr (PStr ''horizontal'', [Figure 5 (35 / 4), GridSpec 2 1 [4, 1]])
   \<and> imghist_layout ((imghist_defaults (Ndarray 2))\<lparr>orientation := PStr ''horizontal''\<rparr>)
       = Inr (PStr ''horizontal'', [Figure 5 (35 / 4), GridSpec 2 1 [4, 1]])
   \<and> snd (imghist env0 ((imghist_defaults (Ndarray 2))\<lparr>orientation := PStr ''h''\<rparr>) world0)
       = Inr PFigure
   \<and> snd (imghist env0 ((imghist_defaults (Ndarray 2))\<lparr>orientation := PStr ''horizontal''\<rparr>) world0)
       = Inr PFigure
   \<and> SetupImagePlot (imgplot_setup
         (imghist_imgplot_args (imghist_defaults (Ndarray 2)) (PStr ''horizontal'')))
       \<in> set (calls (fst (imghist env0
             ((imghist_defaults (Ndarray 2))\<lparr>orientation := PStr ''h''\<rparr>) world0)))
   \<and> orientation (imgplot_setup
         (imghist_imgplot_args (imghist_defaults (Ndarray 2)) (PStr ''horizontal'')))
       = PStr ''horizontal''"
proof -
  let ?D = "imghist_defaults (Ndarray 2)"
  let ?h = "?D\<lparr>orientation := PStr ''diagonal''\<rparr>"
  let ?g = "?D\<lparr>orientation := PInt 0\<rparr>"
  let ?cv = "imgplot_setup (imghist_imgplot_args ?D (PStr ''vertical''))"
  let ?ch = "imgplot_setup (imghist_imgplot_args ?D (PStr ''horizontal''))"
  have o: "orientation ?h \<notin> set [PStr ''v'', PStr ''vertical'', PStr ''h'', PStr ''horizontal'']"
    and og: "orientation ?g \<notin> set [PStr ''v'', PStr ''vertical'', PStr ''h'', PStr ''horizontal'']"
    by simp_all
  have b: "bins ?h = PNone" and bg: "bins ?g = PNone" by (simp_all add: imghist_defaults_def)
  have 1: "imghist env0 ?h world0 = (world0, Inl ValueError)"
    using orientation_shorthand_equivalent [where h = ?h and env = env0 and w = world0] o b
    by blast
  have 2: "imghist env0 ?g world0 = (world0, Inl ValueError)"
    using orientation_shorthand_equivalent [where h = ?g and env = env0 and w = world0] og bg
    by blast
  have cb: "check_bins (bins ?D) = Inr (PStr ''auto'')"
    by (simp add: check_bins_def imghist_defaults_def)
  have d: "data ?D = Ndarray 2" by (simp add: imghist_defaults_def)
  have ckv: "imgplot_checks (imghist_imgplot_args ?D (PStr ''vertical'')) = Inr ()"
    and ckh: "imgplot_checks (imghist_imgplot_args ?D (PStr ''horizontal'')) = Inr ()"
    by (simp_all add: imgplot_checks_def imghist_imgplot_args_def imghist_defaults_def)
  have spv: "setup_plot env0 ?cv = Inr (Suc 0)" and sph: "setup_plot env0 ?ch = Inr (Suc 0)"
    by (simp_all add: env0_def imgplot_setup_def imghist_imgplot_args_def imghist_defaults_def)
  have hd: "height ?D = 5" "aspect ?D = 7 / 4" by (simp_all add: imghist_defaults_def)
  note t = orientation_shorthand_equivalent [where h = ?D and env = env0 and w = world0
      and b = "PStr ''auto''" and k = 0 and d = 2]
  from t have "imghist_layout (?D\<lparr>orientation := PStr ''v''\<rparr>)
       = Inr (PStr ''vertical'',
              [Figure (height ?D * aspect ?D) (height ?D), GridSpec 1 2 [height ?D - 1, 1]])"
    by blast
  then have lv: "imghist_layout (?D\<lparr>orientation := PStr ''v''\<rparr>)
       = Inr (PStr ''vertical'', [Figure (35 / 4) 5, GridSpec 1 2 [4, 1]])"
    by (simp add: hd)
  from t have "imghist_layout (?D\<lparr>orientation := PStr ''h''\<rparr>)
       = Inr (PStr ''horizontal'',
              [Figure (height ?D) (height ?D * aspect ?D), GridSpec 2 1 [height ?D - 1, 1]])"
    by blast
  then have lh: "imghist_layout (?D\<lparr>orientation := PStr ''h''\<rparr>)
       = Inr (PStr ''horizontal'', [Figure 5 (35 / 4), GridSpec 2 1 [4, 1]])"
    by (simp add: hd)
  from t lv have lv': "imghist_layout (?D\<lparr>orientation := PStr ''vertical''\<rparr>)
       = Inr (PStr ''vertical'', [Figure (35 / 4) 5, GridSpec 1 2 [4, 1]])"
    by metis
  from t lh have lh': "imghist_layout (?D\<lparr>orientation := PStr ''horizontal''\<rparr>)
       = Inr (PStr ''horizontal'', [Figure 5 (35 / 4), GridSpec 2 1 [4, 1]])"
    by metis
  from t cb ckv spv d
  have sv: "snd (imghist env0 (?D\<lparr>orientation := PStr ''v''\<rparr>) world0) = Inr PFigure"
    and cv: "SetupImagePlot ?cv
       \<in> set (calls (fst (imghist env0 (?D\<lparr>orientation := PStr ''v''\<rparr>) world0)))"
    by blast+
  from t cb ckh sph d
  have sh: "snd (imghist env0 (?D\<lparr>orientation := PStr ''h''\<rparr>) world0) = Inr PFigure"
    and ch: "SetupImagePlot ?ch
       \<in> set (calls (fst (imghist env0 (?D\<lparr>orientation := PStr ''h''\<rparr>) world0)))"
    by blast+
  from t sv have sv': "snd (imghist env0 (?D\<lparr>orientation := PStr ''vertical''\<rparr>) world0) = Inr PFigure"
    by metis
  from t sh have sh': "snd (imghist env0 (?D\<lparr>orientation := PStr ''horizontal''\<rparr>) world0) = Inr PFigure"
    by metis
  have nv: "SetupImagePlot ?cv \<notin> set (calls world0)"
    and nh: "SetupImagePlot ?ch \<notin> set (calls world0)" by (simp_all add: world0_def)
  from t cv nv have ov: "orientation ?cv = PStr ''vertical''" by blast
  from t ch nh have oh: "orientation ?ch = PStr ''horizontal''" by blast
  from o b 1 og 2 cb d ckv spv lv lv' sv sv' cv ov ckh sph lh lh' sh sh' ch oh
  show ?thesis by blast
qed

subsection \<open>C4: the percentile pair\<close>

text \<open>
  C4. With \<^verbatim>\<open>robust=True\<close>, a \<^verbatim>\<open>perc\<close> of two items with \<^verbatim>\<open>perc[0] >= perc[1]\<close>, and
  a \<^verbatim>\<open>perc\<close> whose length is not 2, make \<^verbatim>\<open>imgplot\<close> raise before any rendering; the
  error is the assertion error once the checks placed before it (\<^verbatim>\<open>cmap\<close>, \<^verbatim>\<open>ax\<close>,
  \<^verbatim>\<open>describe\<close>) pass.
\<close>

theorem robust_perc_assertion:
  assumes "robust a = PBool True"
    and "(\<exists>x y. py_items (perc a) = Inr [x, y] \<and> py_ge x y = Inr True)
         \<or> (\<exists>xs. py_items (perc a) = Inr xs \<and> length xs \<noteq> 2)"
  shows "(\<exists>e. imgplot env a w = (w, Inl e))
       \<and> ((cmap a = PNone \<or> is_str (cmap a) \<or> is_colormap (cmap a))
            \<and> (ax a = PNone \<or> is_axes (ax a))
            \<and> is_bool (imgplot_args.describe a)
          \<longrightarrow> imgplot env a w = (w, Inl AssertionError))"
proof -
  from assms(2) have cp: "check_perc (perc a) = Inl AssertionError"
    using check_perc_unordered check_perc_wrong_length by blast
  have "\<exists>e. imgplot_checks a = Inl e"
    using assms(1) cp by (simp add: imgplot_checks_def)
  then have 1: "\<exists>e. imgplot env a w = (w, Inl e)"
    using imgplot_checks_fail by blast
  have 2: "imgplot env a w = (w, Inl AssertionError)"
    if "(cmap a = PNone \<or> is_str (cmap a) \<or> is_colormap (cmap a))
            \<and> (ax a = PNone \<or> is_axes (ax a))
            \<and> is_bool (imgplot_args.describe a)"
  proof -
    have "imgplot_checks a = Inl AssertionError"
      using that assms(1) cp by (auto simp: imgplot_checks_def)
    then show ?thesis by (rule imgplot_checks_fail)
  qed
  from 1 2 show ?thesis by blast
qed

theorem robust_perc_assertion_witness:
  "robust ((imgplot_defaults (Ndarray 2))\<lparr>robust := PBool True, perc := PTuple [AInt 98, AFloat 2.5]\<rparr>)
      = PBool True
   \<and> py_items (PTuple [AInt 98, AFloat 2.5]) = Inr [AInt 98, AFloat 2.5]
   \<and> py_ge (AInt 98) (AFloat 2.5) = Inr True
   \<and> imgplot env0
        ((imgplot_defaults (Ndarray 2))\<lparr>robust := PBool True, perc := PTuple [AInt 98, AFloat 2.5]\<rparr>)
        world0 = (world0, Inl AssertionError)
   \<and> robust ((imgplot_defaults (Ndarray 2))\<lparr>robust := PBool True, perc := PList [AInt 2, AInt 50, AInt 98]\<rparr>)
      = PBool True
   \<and> length [AInt 2, AInt 50, AInt 98] \<noteq> 2
   \<and> imgplot env0
        ((imgplot_defaults (Ndarray 2))\<lparr>robust := PBool True, perc := PList [AInt 2, AInt 50, AInt 98]\<rparr>)
        world0 = (world0, Inl AssertionError)"
proof -
  let ?a = "(imgplot_defaults (Ndarray 2))\<lparr>robust := PBool True, perc := PTuple [AInt 98, AFloat 2.5]\<rparr>"
  let ?b = "(imgplot_defaults (Ndarray 2))\<lparr>robust := PBool True, perc := PList [AInt 2, AInt 50, AInt 98]\<rparr>"
  have ra: "robust ?a = PBool True" and rb: "robust ?b = PBool True" by simp_all
  have ia: "py_items (perc ?a) = Inr [AInt 98, AFloat 2.5]" by simp
  have ge: "py_ge (AInt 98) (AFloat 2.5) = Inr True" by simp
  have ib: "py_items (perc ?b) = Inr [AInt 2, AInt 50, AInt 98]" by simp
  have lb: "length [AInt 2, AInt 50, AInt 98] \<noteq> 2" by simp
  have pa: "(\<exists>x y. py_items (perc ?a) = Inr [x, y] \<and> py_ge x y = Inr True)
         \<or> (\<exists>xs. py_items (perc ?a) = Inr xs \<and> length xs \<noteq> 2)"
    using ia ge by blast
  have pb: "(\<exists>x y. py_items (perc ?b) = Inr [x, y] \<and> py_ge x y = Inr True)
         \<or> (\<exists>xs. py_items (perc ?b) = Inr xs \<and> length xs \<noteq> 2)"
    using ib lb by blast
  have ea: "(cmap ?a = PNone \<or> is_str (cmap ?a) \<or> is_colormap (cmap ?a))
            \<and> (ax ?a = PNone \<or> is_axes (ax ?a)) \<and> is_bool (imgplot_args.describe ?a)"
    and eb: "(cmap ?b = PNone \<or> is_str (cmap ?b) \<or> is_colormap (cmap ?b))
            \<and> (ax ?b = PNone \<or> is_axes (ax ?b)) \<and> is_bool (imgplot_args.describe ?b)"
    by (simp_all add: imgplot_defaults_def)
  have 1: "imgplot env0 ?a world0 = (world0, Inl AssertionError)"
    using robust_perc_assertion [OF ra pa, of env0 world0] ea by blast
  have 2: "imgplot env0 ?b world0 = (world0, Inl AssertionError)"
    using robust_perc_assertion [OF rb pb, of env0 world0] eb by blast
  from ra ge 1 rb lb 2 show ?thesis by simp
qed

subsection \<open>C5: type checks of the options\<close>

text \<open>
  A string passed as \<^verbatim>\<open>gray\<close> raises nothing: the call renders as with the default.
\<close>

theorem gray_not_type_checked_counterexample:
  "imgplot env0 ((imgplot_defaults (Ndarray 2))\<lparr>gray := PStr ''yes''\<rparr>) world0
     = (\<lparr>calls = [SetupImagePlot (imgplot_setup (imgplot_defaults (Ndarray 2))), PrintDescribe],
         f_axes = 2\<rparr>, Inr PAxes)"
  by (simp add: imgplot_def imgplot_checks_def imgplot_setup_def imgplot_defaults_def env0_def
        world0_def)

text \<open>
  C5 (amended). A non-boolean \<^verbatim>\<open>describe\<close> or \<^verbatim>\<open>robust\<close>, and a \<^verbatim>\<open>cmap\<close> that is
  neither \<^verbatim>\<open>None\<close>, a string nor a colormap, raise a type error. A non-boolean
  \<^verbatim>\<open>cbar\<close>, \<^verbatim>\<open>showticks\<close> or \<^verbatim>\<open>despine\<close>, a non-string \<^verbatim>\<open>orientation\<close> and a
  \<^verbatim>\<open>cbar_label\<close> that is neither \<^verbatim>\<open>None\<close> nor a string raise a type error unless
  \<^verbatim>\<open>robust\<close> is true and the \<^verbatim>\<open>perc\<close> assertions, which come first, fail. Nothing is
  said of \<^verbatim>\<open>gray\<close>.
\<close>

theorem option_type_errors:
  "((cmap a \<noteq> PNone \<and> \<not> is_str (cmap a) \<and> \<not> is_colormap (cmap a))
      \<or> \<not> is_bool (imgplot_args.describe a) \<or> \<not> is_bool (robust a)
     \<longrightarrow> imgplot env a w = (w, Inl TypeError))
   \<and> ((\<not> is_bool (cbar a) \<or> \<not> is_str (orientation a)
        \<or> (cbar_label a \<noteq> PNone \<and> \<not> is_str (cbar_label a))
        \<or> \<not> is_bool (showticks a) \<or> \<not> is_bool (despine a))
       \<and> (robust a = PBool True \<longrightarrow> check_perc (perc a) = Inr ())
     \<longrightarrow> imgplot env a w = (w, Inl TypeError))"
proof (intro conjI impI)
  assume "(cmap a \<noteq> PNone \<and> \<not> is_str (cmap a) \<and> \<not> is_colormap (cmap a))
      \<or> \<not> is_bool (imgplot_args.describe a) \<or> \<not> is_bool (robust a)"
  then have "imgplot_checks a = Inl TypeError"
    by (auto simp: imgplot_checks_def)
  then show "imgplot env a w = (w, Inl TypeError)" by (rule imgplot_checks_fail)
next
  assume "(\<not> is_bool (cbar a) \<or> \<not> is_str (orientation a)
        \<or> (cbar_label a \<noteq> PNone \<and> \<not> is_str (cbar_label a))
        \<or> \<not> is_bool (showticks a) \<or> \<not> is_bool (despine a))
       \<and> (robust a = PBool True \<longrightarrow> check_perc (perc a) = Inr ())"
  then have "imgplot_checks a = Inl TypeError"
    by (auto simp: imgplot_checks_def)
  then show "imgplot env a w = (w, Inl TypeError)" by (rule imgplot_checks_fail)
qed

theorem option_type_errors_witness:
  "\<not> is_bool (imgplot_args.describe
        ((imgplot_defaults (Ndarray 2))\<lparr>imgplot_args.describe := PInt 1\<rparr>))
   \<and> imgplot env0 ((imgplot_defaults (Ndarray 2))\<lparr>imgplot_args.describe := PInt 1\<rparr>) world0
       = (world0, Inl TypeError)
   \<and> \<not> is_bool (cbar ((imgplot_defaults (Ndarray 2))\<lparr>cbar := PStr ''yes''\<rparr>))
   \<and> robust ((imgplot_defaults (Ndarray 2))\<lparr>cbar := PStr ''yes''\<rparr>) \<noteq> PBool True
   \<and> imgplot env0 ((imgplot_defaults (Ndarray 2))\<lparr>cbar := PStr ''yes''\<rparr>) world0
       = (world0, Inl TypeError)"
proof -
  let ?a = "(imgplot_defaults (Ndarray 2))\<lparr>imgplot_args.describe := PInt 1\<rparr>"
  let ?b = "(imgplot_defaults (Ndarray 2))\<lparr>cbar := PStr ''yes''\<rparr>"
  have da: "\<not> is_bool (imgplot_args.describe ?a)" by simp
  have cb: "\<not> is_bool (cbar ?b)" by simp
  have rb: "robust ?b \<noteq> PBool True" by (simp add: imgplot_defaults_def)
  have 1: "imgplot env0 ?a world0 = (world0, Inl TypeError)"
    using option_type_errors [where a = ?a and env = env0 and w = world0] da by blast
  have 2: "imgplot env0 ?b world0 = (world0, Inl TypeError)"
    using option_type_errors [where a = ?b and env = env0 and w = world0] cb rb by blast
  from da 1 cb rb 2 show ?thesis by blast
qed

subsection \<open>C6: the bins of imghist\<close>

text \<open>
  C6. A non-positive integer \<^verbatim>\<open>bins\<close> makes \<^verbatim>\<open>imghist\<close> raise a value error with
  nothing created. With a positive integer \<^verbatim>\<open>bins\<close>, or \<^verbatim>\<open>None\<close>, a valid orientation,
  options that pass the checks of \<^verbatim>\<open>imgplot\<close>, an \<^verbatim>\<open>ndarray\<close> and a helper that adds
  the colorbar axes, the call returns the figure and its one histogram call has that bin
  count, \<^verbatim>\<open>"auto"\<close> for \<^verbatim>\<open>None\<close>.
\<close>

theorem bins_validated_and_used:
  "(is_int b \<and> int_of b \<le> 0 \<longrightarrow> imghist env (h\<lparr>bins := b\<rparr>) w = (w, Inl ValueError))
   \<and> ((b = PNone \<or> (is_int b \<and> 0 < int_of b))
       \<and> imghist_layout h = Inr (orient, layout)
       \<and> imgplot_checks (imghist_imgplot_args h orient) = Inr ()
       \<and> setup_plot env (imgplot_setup (imghist_imgplot_args h orient)) = Inr (Suc k)
       \<and> data h = Ndarray d
      \<longrightarrow> (\<exists>w'. imghist env (h\<lparr>bins := b\<rparr>) w = (w', Inr PFigure)
              \<and> hist_bins (calls w')
                  = hist_bins (calls w) @ [if b = PNone then PStr ''auto'' else b]))"
proof (intro conjI impI)
  assume "is_int b \<and> int_of b \<le> 0"
  then have "check_bins (bins (h\<lparr>bins := b\<rparr>)) = Inl ValueError"
    by (auto simp: check_bins_def)
  then show "imghist env (h\<lparr>bins := b\<rparr>) w = (w, Inl ValueError)"
    by (rule imghist_bins_fail)
next
  let ?h = "h\<lparr>bins := b\<rparr>"
  let ?b = "if b = PNone then PStr ''auto'' else b"
  assume a: "(b = PNone \<or> (is_int b \<and> 0 < int_of b))
       \<and> imghist_layout h = Inr (orient, layout)
       \<and> imgplot_checks (imghist_imgplot_args h orient) = Inr ()
       \<and> setup_plot env (imgplot_setup (imghist_imgplot_args h orient)) = Inr (Suc k)
       \<and> data h = Ndarray d"
  then have cb: "check_bins (bins ?h) = Inr ?b"
    by (auto simp: check_bins_def)
  have args: "imghist_imgplot_args ?h orient = imghist_imgplot_args h orient"
    by (simp add: imghist_imgplot_args_def)
  have "imghist_layout ?h = imghist_layout h"
    by (simp add: imghist_layout_def)
  then have lay: "imghist_layout ?h = Inr (orient, layout)"
    using a by simp
  have hl: "hist_bins layout = []"
    using a by (auto simp: imghist_layout_def split: if_splits)
  have ck: "imgplot_checks (imghist_imgplot_args ?h orient) = Inr ()"
    and sp: "setup_plot env (imgplot_setup (imghist_imgplot_args ?h orient)) = Inr (Suc k)"
    and d: "data ?h = Ndarray d"
    using a by (simp_all add: args)
  note s = imghist_success[OF cb lay ck sp d, of w]
  show "\<exists>w'. imghist env ?h w = (w', Inr PFigure)
              \<and> hist_bins (calls w') = hist_bins (calls w) @ [?b]"
    unfolding s by (simp add: hist_bins_append hl)
qed

theorem bins_validated_and_used_witness:
  "is_int (PInt (- 5)) \<and> int_of (PInt (- 5)) \<le> 0
   \<and> imghist env0 ((imghist_defaults (Ndarray 2))\<lparr>bins := PInt (- 5)\<rparr>) world0
       = (world0, Inl ValueError)
   \<and> imghist env0 ((imghist_defaults (Ndarray 2))\<lparr>bins := PInt 0\<rparr>) world0
       = (world0, Inl ValueError)
   \<and> is_int (PInt 150) \<and> 0 < int_of (PInt 150)
   \<and> imghist_layout (imghist_defaults (Ndarray 2))
       = Inr (PStr ''vertical'', [Figure (35 / 4) 5, GridSpec 1 2 [4, 1]])
   \<and> imgplot_checks (imghist_imgplot_args (imghist_defaults (Ndarray 2)) (PStr ''vertical''))
       = Inr ()
   \<and> setup_plot env0 (imgplot_setup
         (imghist_imgplot_args (imghist_defaults (Ndarray 2)) (PStr ''vertical''))) = Inr (Suc 0)
   \<and> data (imghist_defaults (Ndarray 2)) = Ndarray 2
   \<and> snd (imghist env0 ((imghist_defaults (Ndarray 2))\<lparr>bins := PInt 150\<rparr>) world0) = Inr PFigure
   \<and> hist_bins (calls (fst
         (imghist env0 ((imghist_defaults (Ndarray 2))\<lparr>bins := PInt 150\<rparr>) world0)))
       = [PInt 150]
   \<and> snd (imghist env0 ((imghist_defaults (Ndarray 2))\<lparr>bins := PNone\<rparr>) world0) = Inr PFigure
   \<and> hist_bins (calls (fst
         (imghist env0 ((imghist_defaults (Ndarray 2))\<lparr>bins := PNone\<rparr>) world0)))
       = [PStr ''auto'']"
proof -
  let ?h = "imghist_defaults (Ndarray 2)"
  let ?lay = "[Figure (35 / 4) 5, GridSpec 1 2 [4, 1]]"
  have n: "is_int (PInt (- 5)) \<and> int_of (PInt (- 5)) \<le> 0"
    and z: "is_int (PInt 0) \<and> int_of (PInt 0) \<le> 0"
    and p: "is_int (PInt 150) \<and> 0 < int_of (PInt 150)" by simp_all
  have l: "imghist_layout ?h = Inr (PStr ''vertical'', ?lay)"
    by (simp add: imghist_layout_def imghist_defaults_def)
  have c: "imgplot_checks (imghist_imgplot_args ?h (PStr ''vertical'')) = Inr ()"
    by (simp add: imgplot_checks_def imghist_imgplot_args_def imghist_defaults_def)
  have s: "setup_plot env0 (imgplot_setup (imghist_imgplot_args ?h (PStr ''vertical'')))
       = Inr (Suc 0)"
    by (simp add: env0_def imgplot_setup_def imghist_imgplot_args_def imghist_defaults_def)
  have d: "data ?h = Ndarray 2" by (simp add: imghist_defaults_def)
  have e: "hist_bins (calls world0) = []" by (simp add: world0_def)
  have 1: "imghist env0 (?h\<lparr>bins := PInt (- 5)\<rparr>) world0 = (world0, Inl ValueError)"
    using bins_validated_and_used [where b = "PInt (- 5)" and h = ?h and env = env0
        and w = world0] n by blast
  have 2: "imghist env0 (?h\<lparr>bins := PInt 0\<rparr>) world0 = (world0, Inl ValueError)"
    using bins_validated_and_used [where b = "PInt 0" and h = ?h and env = env0
        and w = world0] z by blast
  have "\<exists>w'. imghist env0 (?h\<lparr>bins := PInt 150\<rparr>) world0 = (w', Inr PFigure)
          \<and> hist_bins (calls w')
              = hist_bins (calls world0) @ [if PInt 150 = PNone then PStr ''auto'' else PInt 150]"
    using bins_validated_and_used [where b = "PInt 150" and h = ?h and env = env0
        and w = world0 and orient = "PStr ''vertical''" and layout = ?lay and k = 0
        and d = 2] p l c s d by blast
  then have 3: "snd (imghist env0 (?h\<lparr>bins := PInt 150\<rparr>) world0) = Inr PFigure
      \<and> hist_bins (calls (fst (imghist env0 (?h\<lparr>bins := PInt 150\<rparr>) world0))) = [PInt 150]"
    using e by auto
  have "\<exists>w'. imghist env0 (?h\<lparr>bins := PNone\<rparr>) world0 = (w', Inr PFigure)
          \<and> hist_bins (calls w')
              = hist_bins (calls world0) @ [if PNone = PNone then PStr ''auto'' else PNone]"
    using bins_validated_and_used [where b = PNone and h = ?h and env = env0
        and w = world0 and orient = "PStr ''vertical''" and layout = ?lay and k = 0
        and d = 2] l c s d by blast
  then have 4: "snd (imghist env0 (?h\<lparr>bins := PNone\<rparr>) world0) = Inr PFigure
      \<and> hist_bins (calls (fst (imghist env0 (?h\<lparr>bins := PNone\<rparr>) world0))) = [PStr ''auto'']"
    using e by auto
  from n 1 2 p l c s d 3 4 show ?thesis by blast
qed

subsection \<open>C7: ticks and frame of the histogram panel\<close>

text \<open>
  With \<^verbatim>\<open>showticks=True\<close> the call succeeds and the frame of the histogram panel is
  switched off all the same.
\<close>

theorem frame_off_with_ticks_counterexample:
  "snd (imghist env0 ((imghist_defaults (Ndarray 2))\<lparr>showticks := PBool True\<rparr>) world0)
     = Inr PFigure
   \<and> FrameOff \<in> set (calls (fst
        (imghist env0 ((imghist_defaults (Ndarray 2))\<lparr>showticks := PBool True\<rparr>) world0)))"
  by (simp add: imghist_def check_bins_def imghist_layout_def imghist_imgplot_args_def
        imgplot_def imgplot_checks_def imgplot_setup_def imghist_panel_def
        imghist_defaults_def env0_def world0_def Let_def)

text \<open>
  C7 (amended). In every successful \<^verbatim>\<open>imghist\<close> call the frame of the histogram panel
  is switched off, and its x and y axes are made invisible if and only if
  \<^verbatim>\<open>showticks\<close> is \<^verbatim>\<open>False\<close>.
\<close>

theorem histogram_ticks_and_frame:
  assumes "imghist env h w = (w', Inr r)"
  shows "\<exists>new. calls w' = calls w @ new
          \<and> FrameOff \<in> set new
          \<and> (XAxisInvisible \<in> set new \<longleftrightarrow> showticks h = PBool False)
          \<and> (YAxisInvisible \<in> set new \<longleftrightarrow> showticks h = PBool False)"
proof -
  from assms obtain b orient layout k d where b: "check_bins (bins h) = Inr b"
    and lay: "imghist_layout h = Inr (orient, layout)"
    and ck: "imgplot_checks (imghist_imgplot_args h orient) = Inr ()"
    and sp: "setup_plot env (imgplot_setup (imghist_imgplot_args h orient)) = Inr (Suc k)"
    and d: "data h = Ndarray d"
    by (rule imghist_success_cases)
  have "is_bool (showticks (imghist_imgplot_args h orient))"
    using ck by (auto simp: imgplot_checks_def split: if_splits sum.splits)
  then have "is_bool (showticks h)" by (simp add: imghist_imgplot_args_def)
  then obtain t where t: "showticks h = PBool t" by (cases "showticks h") simp_all
  have l: "XAxisInvisible \<notin> set layout" "YAxisInvisible \<notin> set layout"
    using lay by (auto simp: imghist_layout_def split: if_splits)
  define new where "new = layout
          @ [AddSubplot 0 None, SetupImagePlot (imgplot_setup (imghist_imgplot_args h orient))]
          @ (if truthy (imghist_args.describe h) then [PrintDescribe] else [])
          @ [AddSubplot 1 (Some (if orient = PStr ''vertical'' then ShareY else ShareX)),
             Hist b (if orient = PStr ''vertical'' then ''horizontal'' else ''vertical'')]
          @ (if \<not> truthy (showticks h) then [XAxisInvisible, YAxisInvisible] else [])
          @ [FrameOff, FaceColors (hist_colormap env (cmap h))]"
  from imghist_success[OF b lay ck sp d, of w] assms
  have c: "calls w' = calls w @ new"
    by (auto simp: new_def)
  have f: "FrameOff \<in> set new" by (simp add: new_def)
  have x: "XAxisInvisible \<in> set new \<longleftrightarrow> showticks h = PBool False"
    using l t by (auto simp: new_def)
  have y: "YAxisInvisible \<in> set new \<longleftrightarrow> showticks h = PBool False"
    using l t by (auto simp: new_def)
  from c f x y show ?thesis by blast
qed

theorem histogram_ticks_and_frame_witness:
  "imghist env0 ((imghist_defaults (Ndarray 2))\<lparr>orientation := PStr ''h''\<rparr>) world0
     = (\<lparr>calls = [Figure 5 (35 / 4), GridSpec 2 1 [4, 1], AddSubplot 0 None,
          SetupImagePlot (imgplot_setup (imghist_imgplot_args
            ((imghist_defaults (Ndarray 2))\<lparr>orientation := PStr ''h''\<rparr>) (PStr ''horizontal''))),
          PrintDescribe, AddSubplot 1 (Some ShareX), Hist (PStr ''auto'') ''vertical'',
          XAxisInvisible, YAxisInvisible, FrameOff, FaceColors CurrentDefault],
         f_axes = 3\<rparr>, Inr PFigure)
   \<and> showticks ((imghist_defaults (Ndarray 2))\<lparr>orientation := PStr ''h''\<rparr>) = PBool False
   \<and> (\<exists>new. [Figure 5 (35 / 4), GridSpec 2 1 [4, 1], AddSubplot 0 None,
          SetupImagePlot (imgplot_setup (imghist_imgplot_args
            ((imghist_defaults (Ndarray 2))\<lparr>orientation := PStr ''h''\<rparr>) (PStr ''horizontal''))),
          PrintDescribe, AddSubplot 1 (Some ShareX), Hist (PStr ''auto'') ''vertical'',
          XAxisInvisible, YAxisInvisible, FrameOff, FaceColors CurrentDefault] = calls world0 @ new
        \<and> FrameOff \<in> set new \<and> XAxisInvisible \<in> set new \<and> YAxisInvisible \<in> set new)"
proof -
  let ?h = "(imghist_defaults (Ndarray 2))\<lparr>orientation := PStr ''h''\<rparr>"
  let ?cs = "[Figure 5 (35 / 4), GridSpec 2 1 [4, 1], AddSubplot 0 None,
          SetupImagePlot (imgplot_setup (imghist_imgplot_args ?h (PStr ''horizontal''))),
          PrintDescribe, AddSubplot 1 (Some ShareX), Hist (PStr ''auto'') ''vertical'',
          XAxisInvisible, YAxisInvisible, FrameOff, FaceColors CurrentDefault]"
  have r: "imghist env0 ?h world0 = (\<lparr>calls = ?cs, f_axes = 3\<rparr>, Inr PFigure)"
    by (simp add: imghist_def check_bins_def imghist_layout_def imghist_imgplot_args_def
        imgplot_def imgplot_checks_def imgplot_setup_def imghist_panel_def hist_colormap_def
        imghist_defaults_def env0_def world0_def Let_def)
  have s: "showticks ?h = PBool False" by (simp add: imghist_defaults_def)
  from histogram_ticks_and_frame [OF r] s
  have "\<exists>new. ?cs = calls world0 @ new
        \<and> FrameOff \<in> set new \<and> XAxisInvisible \<in> set new \<and> YAxisInvisible \<in> set new"
    by simp
  with r s show ?thesis by blast
qed

subsection \<open>C8: the gray colormap\<close>

text \<open>
  C8. When \<^verbatim>\<open>gray\<close> is \<^verbatim>\<open>True\<close> and the checks pass, the helper is called with the
  keyword set of \<open>imgplot_setup\<close> and no other; its \<^verbatim>\<open>cmap\<close> is \<^verbatim>\<open>"gray"\<close> when the
  caller gave none, and the caller's \<^verbatim>\<open>cmap\<close> otherwise.
\<close>

theorem gray_sets_default_colormap:
  assumes "gray a = PBool True" and "imgplot_checks a = Inr ()"
  shows "SetupImagePlot (imgplot_setup a) \<in> set (calls (fst (imgplot env a w)))
       \<and> (\<forall>cfg. SetupImagePlot cfg \<in> set (calls (fst (imgplot env a w))) - set (calls w)
             \<longrightarrow> cfg = imgplot_setup a)
       \<and> (cmap a = PNone \<longrightarrow> cmap (imgplot_setup a) = PStr ''gray'')
       \<and> (cmap a \<noteq> PNone \<longrightarrow> cmap (imgplot_setup a) = cmap a)"
proof (intro conjI allI impI)
  show "SetupImagePlot (imgplot_setup a) \<in> set (calls (fst (imgplot env a w)))"
    using assms(2) by (rule imgplot_calls_setup)
next
  fix cfg
  assume "SetupImagePlot cfg \<in> set (calls (fst (imgplot env a w))) - set (calls w)"
  then have "SetupImagePlot cfg = SetupImagePlot (imgplot_setup a) \<or> SetupImagePlot cfg = PrintDescribe"
    using imgplot_new_calls by blast
  then show "cfg = imgplot_setup a" by simp
next
  assume "cmap a = PNone"
  then show "cmap (imgplot_setup a) = PStr ''gray''"
    using assms(1) by (simp add: imgplot_setup_def Let_def)
next
  assume "cmap a \<noteq> PNone"
  then show "cmap (imgplot_setup a) = cmap a"
    by (simp add: imgplot_setup_def Let_def)
qed

theorem gray_sets_default_colormap_witness:
  "gray ((imgplot_defaults (Ndarray 2))\<lparr>gray := PBool True\<rparr>) = PBool True
   \<and> imgplot_checks ((imgplot_defaults (Ndarray 2))\<lparr>gray := PBool True\<rparr>) = Inr ()
   \<and> cmap ((imgplot_defaults (Ndarray 2))\<lparr>gray := PBool True\<rparr>) = PNone
   \<and> cmap (imgplot_setup ((imgplot_defaults (Ndarray 2))\<lparr>gray := PBool True\<rparr>)) = PStr ''gray''
   \<and> gray ((imgplot_defaults (Ndarray 2))\<lparr>gray := PBool True, cmap := PStr ''deep''\<rparr>) = PBool True
   \<and> imgplot_checks ((imgplot_defaults (Ndarray 2))\<lparr>gray := PBool True, cmap := PStr ''deep''\<rparr>)
       = Inr ()
   \<and> cmap (imgplot_setup ((imgplot_defaults (Ndarray 2))\<lparr>gray := PBool True, cmap := PStr ''deep''\<rparr>))
       = PStr ''deep''"
proof -
  let ?a = "(imgplot_defaults (Ndarray 2))\<lparr>gray := PBool True\<rparr>"
  let ?b = "(imgplot_defaults (Ndarray 2))\<lparr>gray := PBool True, cmap := PStr ''deep''\<rparr>"
  have ga: "gray ?a = PBool True" and gb: "gray ?b = PBool True"
    by (simp_all add: imgplot_defaults_def)
  have ca: "imgplot_checks ?a = Inr ()" and cb: "imgplot_checks ?b = Inr ()"
    by (simp_all add: imgplot_checks_def imgplot_defaults_def)
  have na: "cmap ?a = PNone" and nb: "cmap ?b \<noteq> PNone" "cmap ?b = PStr ''deep''"
    by (simp_all add: imgplot_defaults_def)
  from gray_sets_default_colormap [OF ga ca, of env0 world0] na
  have 1: "cmap (imgplot_setup ?a) = PStr ''gray''" by blast
  from gray_sets_default_colormap [OF gb cb, of env0 world0] nb
  have 2: "cmap (imgplot_setup ?b) = PStr ''deep''" by metis
  from ga ca na 1 gb cb 2 show ?thesis by blast
qed

subsection \<open>C9: gray is not type-checked\<close>

text \<open>
  C9. The checks of \<^verbatim>\<open>imgplot\<close> do not depend on \<^verbatim>\<open>gray\<close>, and every value of
  \<^verbatim>\<open>gray\<close> other than \<^verbatim>\<open>True\<close> gives the call the behaviour of \<^verbatim>\<open>gray=None\<close>.
\<close>

theorem gray_never_type_checked:
  "imgplot_checks (a\<lparr>gray := g\<rparr>) = imgplot_checks a
   \<and> (g \<noteq> PBool True \<longrightarrow> imgplot env (a\<lparr>gray := g\<rparr>) w = imgplot env (a\<lparr>gray := PNone\<rparr>) w)"
proof (intro conjI impI)
  show "imgplot_checks (a\<lparr>gray := g\<rparr>) = imgplot_checks a"
    by (simp add: imgplot_checks_def)
  then have eq: "imgplot_checks (a\<lparr>gray := g\<rparr>) = imgplot_checks (a\<lparr>gray := PNone\<rparr>)"
    by (simp add: imgplot_checks_def)
  assume "g \<noteq> PBool True"
  then have "imgplot_setup (a\<lparr>gray := g\<rparr>) = imgplot_setup (a\<lparr>gray := PNone\<rparr>)"
    by (rule imgplot_setup_gray_not_true)
  then show "imgplot env (a\<lparr>gray := g\<rparr>) w = imgplot env (a\<lparr>gray := PNone\<rparr>) w"
    by (cases "imgplot_checks (a\<lparr>gray := PNone\<rparr>)") (simp_all add: imgplot_def eq Let_def split: sum.splits)
qed

theorem gray_never_type_checked_witness:
  "PInt 1 \<noteq> PBool True
   \<and> imgplot_checks ((imgplot_defaults (Ndarray 2))\<lparr>gray := PInt 1\<rparr>) = Inr ()
   \<and> imgplot env0 ((imgplot_defaults (Ndarray 2))\<lparr>gray := PInt 1\<rparr>) world0
       = imgplot env0 ((imgplot_defaults (Ndarray 2))\<lparr>gray := PNone\<rparr>) world0"
proof -
  have "imgplot_checks (imgplot_defaults (Ndarray 2)) = Inr ()"
    by (simp add: imgplot_checks_def imgplot_defaults_def)
  with gray_never_type_checked [where a = "imgplot_defaults (Ndarray 2)" and g = "PInt 1"
      and env = env0 and w = world0]
  show ?thesis by simp
qed

subsection \<open>C10: perc without robust\<close>

text \<open>
  C10. With \<^verbatim>\<open>robust=False\<close> the outcome of the checks of \<^verbatim>\<open>imgplot\<close> does not
  depend on \<^verbatim>\<open>perc\<close>, whatever its value.
\<close>

theorem perc_ignored_unless_robust:
  assumes "robust a = PBool False"
  shows "imgplot_checks (a\<lparr>perc := p\<rparr>) = imgplot_checks a"
  using assms by (simp add: imgplot_checks_def)

theorem perc_ignored_unless_robust_witness:
  "robust (imgplot_defaults (Ndarray 2)) = PBool False
   \<and> check_perc (PTuple [AInt 98, AInt 2]) = Inl AssertionError
   \<and> imgplot_checks ((imgplot_defaults (Ndarray 2))\<lparr>perc := PTuple [AInt 98, AInt 2]\<rparr>) = Inr ()
   \<and> imgplot_checks ((imgplot_defaults (Ndarray 2))\<lparr>perc := PObject\<rparr>) = Inr ()"
proof -
  have r: "robust (imgplot_defaults (Ndarray 2)) = PBool False"
    by (simp add: imgplot_defaults_def)
  have c: "imgplot_checks (imgplot_defaults (Ndarray 2)) = Inr ()"
    by (simp add: imgplot_checks_def imgplot_defaults_def)
  have p: "check_perc (PTuple [AInt 98, AInt 2]) = Inl AssertionError"
    by (simp add: check_perc_def)
  from perc_ignored_unless_robust [OF r, of "PTuple [AInt 98, AInt 2]"]
       perc_ignored_unless_robust [OF r, of PObject] r c p
  show ?thesis by simp
qed

end
